theory Spec2Isabelle
  imports Main "HOL-Library.Sublist"
begin

section \<open>JavaScript values\<close>

text \<open>
  The backend (\<^verbatim>\<open>src/backend/schema.ts\<close>, second half: the Express server) moves
  untyped JavaScript values around: request bodies, rows returned by the store, the
  parameter arrays bound to SQL statements and the JSON bodies of responses. They are
  modelled by one datatype. \<open>JNum\<close> carries integer-valued numbers only (every number the
  modelled handlers compute is an integer; magnitudes are taken below \<open>2^53\<close>, where
  JavaScript arithmetic is exact). An object is an association list; a key is looked up
  from the front.
\<close>

datatype jsval =
    JUndefined
  | JNull
  | JBool bool
  | JNum int
  | JStr string
  | JDate int
  | JArr "jsval list"
  | JObj "(string \<times> jsval) list"

text \<open>Property access \<^verbatim>\<open>v.k\<close>; a missing key, or a key of a primitive, is \<^verbatim>\<open>undefined\<close>.\<close>

fun jprop :: "jsval \<Rightarrow> string \<Rightarrow> jsval" where
  "jprop (JObj kvs) k = (case map_of kvs k of Some v \<Rightarrow> v | None \<Rightarrow> JUndefined)"
| "jprop v k = JUndefined"

text \<open>Truthiness, as \<^verbatim>\<open>if (v)\<close> reads it.\<close>

fun truthy :: "jsval \<Rightarrow> bool" where
  "truthy JUndefined = False"
| "truthy JNull = False"
| "truthy (JBool b) = b"
| "truthy (JNum n) = (n \<noteq> 0)"
| "truthy (JStr s) = (s \<noteq> [])"
| "truthy (JDate t) = True"
| "truthy (JArr xs) = True"
| "truthy (JObj kvs) = True"

text \<open>\<^verbatim>\<open>{...obj, k: v}\<close>: the spread followed by one overriding key.\<close>

definition spread_with :: "(string \<times> jsval) list \<Rightarrow> string \<Rightarrow> jsval \<Rightarrow> (string \<times> jsval) list" where
  "spread_with obj k v = filter (\<lambda>kv. fst kv \<noteq> k) obj @ [(k, v)]"

text \<open>Decimal rendering of a parameter index, as the template \<^verbatim>\<open>$${paramIndex}\<close> does.\<close>

function show_nat :: "nat \<Rightarrow> string" where
  "show_nat n =
     (if n < 10 then [''0123456789'' ! n]
      else show_nat (n div 10) @ [''0123456789'' ! (n mod 10)])"
  by pat_completeness auto
termination
  by (relation "measure id") auto

declare show_nat.simps [simp del]

text \<open>\<^verbatim>\<open>String.prototype.toUpperCase\<close> on ASCII text.\<close>

definition upper_char :: "char \<Rightarrow> char" where
  "upper_char c =
     (case map_of (zip ''abcdefghijklmnopqrstuvwxyz'' ''ABCDEFGHIJKLMNOPQRSTUVWXYZ'') c of
        Some d \<Rightarrow> d
      | None \<Rightarrow> c)"

definition toUpperCase :: "string \<Rightarrow> string" where
  "toUpperCase s = map upper_char s"

text \<open>\<^verbatim>\<open>String.prototype.split\<close> with a one-character separator.\<close>

fun split_on :: "char \<Rightarrow> string \<Rightarrow> string list" where
  "split_on d [] = [[]]"
| "split_on d (c # cs) =
     (if c = d then [] # split_on d cs
      else (case split_on d cs of
              w # ws \<Rightarrow> (c # w) # ws
            | [] \<Rightarrow> [[c]]))"

text \<open>\<^verbatim>\<open>Array.prototype.join\<close>.\<close>

fun join :: "string \<Rightarrow> string list \<Rightarrow> string" where
  "join sep [] = []"
| "join sep [x] = x"
| "join sep (x # y # ys) = x @ sep @ join sep (y # ys)"

section \<open>The environment of a request\<close>

text \<open>
  What the server takes from outside its own source is a parameter of the model: the
  clock, the identifier generator, the token library (\<^verbatim>\<open>jwt.verify\<close> either throws an
  error object, \<open>Inl\<close>, or returns the decoded payload, \<open>Inr\<close>), the \<^verbatim>\<open>Date\<close>
  constructor (\<open>None\<close> is an invalid date), \<^verbatim>\<open>parseInt\<close> (\<open>None\<close> is \<^verbatim>\<open>NaN\<close> or an
  infinity, which \<^verbatim>\<open>z.number().int()\<close> rejects alike), the URL and UUID formats of the
  schema library, \<^verbatim>\<open>JSON.stringify\<close>, and the store's enforcement of its declared
  constraints (\<open>constraint_error t rows\<close> is the error object the driver throws when a
  statement would leave table \<open>t\<close> holding \<open>rows\<close>, \<open>None\<close> when the statement is
  accepted). Every theorem below holds for every environment.
\<close>

record env =
  now :: string
  uuidv4 :: string
  JWT_SECRET :: string
  jwt_verify :: "string \<Rightarrow> string \<Rightarrow> jsval + jsval"
  new_Date :: "jsval \<Rightarrow> int option"
  parseInt :: "string \<Rightarrow> int option"
  is_url :: "string \<Rightarrow> bool"
  is_uuid :: "string \<Rightarrow> bool"
  JSON_stringify :: "jsval \<Rightarrow> string"
  constraint_error :: "string \<Rightarrow> jsval list \<Rightarrow> jsval option"

section \<open>Responses and the error envelope\<close>

record response =
  status :: nat
  body :: jsval

text \<open>
  \<^verbatim>\<open>createErrorResponse(message, error?, errorCode?)\<close> (lines 445-469). The timestamp
  is the clock's; \<open>error_code\<close> and \<open>details\<close> are set only for a truthy argument.
\<close>

definition createErrorResponse :: "env \<Rightarrow> string \<Rightarrow> jsval \<Rightarrow> jsval \<Rightarrow> jsval" where
  "createErrorResponse e msg error errorCode =
     JObj ([(''success'', JBool False), (''message'', JStr msg), (''timestamp'', JStr (now e))]
           @ (if truthy errorCode then [(''error_code'', errorCode)] else [])
           @ (if truthy error
              then [(''details'', JObj [(''name'', jprop error ''name''),
                                        (''message'', jprop error ''message''),
                                        (''stack'', jprop error ''stack'')])]
              else []))"

definition respond_error :: "env \<Rightarrow> nat \<Rightarrow> string \<Rightarrow> jsval \<Rightarrow> string \<Rightarrow> response" where
  "respond_error e code msg error errorCode =
     \<lparr>status = code, body = createErrorResponse e msg error (JStr errorCode)\<rparr>"

text \<open>
  The \<^verbatim>\<open>catch\<close> block every handler ends with (line 654 and its siblings): the caught
  error goes into the response.
\<close>

definition internal_server_error :: "env \<Rightarrow> jsval \<Rightarrow> response" where
  "internal_server_error e error =
     respond_error e 500 ''Internal server error'' error ''INTERNAL_SERVER_ERROR''"

section \<open>The relational store\<close>

text \<open>
  One table per resource kind (\<^verbatim>\<open>src/backend/db.sql\<close>); a row is an object from column
  names to values. Statements are answered from the tables; a statement fails only
  where the environment reports a violated constraint.
\<close>

record store =
  users :: "jsval list"
  projects :: "jsval list"
  project_gallery_images :: "jsval list"
  experiences :: "jsval list"
  skills :: "jsval list"
  user_skills :: "jsval list"
  educations :: "jsval list"
  contact_messages :: "jsval list"
  social_links :: "jsval list"
  resumes :: "jsval list"

text \<open>\<^verbatim>\<open>WHERE col = $1\<close>: SQL equality is never true of a null parameter.\<close>

definition sql_eq :: "jsval \<Rightarrow> jsval \<Rightarrow> bool" where
  "sql_eq a b = (a \<noteq> JNull \<and> a \<noteq> JUndefined \<and> a = b)"

definition select_eq :: "jsval list \<Rightarrow> string \<Rightarrow> jsval \<Rightarrow> jsval list" where
  "select_eq tbl c v = filter (\<lambda>r. sql_eq (jprop r c) v) tbl"

definition delete_eq :: "jsval list \<Rightarrow> string \<Rightarrow> jsval \<Rightarrow> jsval list" where
  "delete_eq tbl c v = filter (\<lambda>r. \<not> sql_eq (jprop r c) v) tbl"

text \<open>\<^verbatim>\<open>SELECT c1, ..., cn\<close>: the row restricted to the listed columns.\<close>

definition columns :: "string list \<Rightarrow> jsval \<Rightarrow> jsval" where
  "columns cs r = JObj (map (\<lambda>c. (c, jprop r c)) cs)"

text \<open>Assigning columns of a row (\<^verbatim>\<open>SET c = v\<close>), left to right.\<close>

fun set_col :: "jsval \<Rightarrow> string \<times> jsval \<Rightarrow> jsval" where
  "set_col (JObj kvs) (c, v) =
     JObj (if c \<in> set (map fst kvs)
           then map (\<lambda>kv. if fst kv = c then (c, v) else kv) kvs
           else kvs @ [(c, v)])"
| "set_col r cv = r"

definition set_cols :: "jsval \<Rightarrow> (string \<times> jsval) list \<Rightarrow> jsval" where
  "set_cols r cvs = foldl set_col r cvs"

section \<open>Token verification\<close>

text \<open>
  \<^verbatim>\<open>authenticateToken\<close> (lines 563-584). The header is split at spaces and the second
  piece is the token. The result is either the response that ends the request (\<open>Inl\<close>)
  or the row read from the user table, which becomes \<^verbatim>\<open>req.user\<close> (\<open>Inr\<close>). The
  \<^verbatim>\<open>catch\<close> block is entered when the token library throws; the read of the user
  table does not fail in the model.
\<close>

definition header_token :: "string option \<Rightarrow> jsval" where
  "header_token authHeader =
     (case authHeader of
        None \<Rightarrow> JUndefined
      | Some h \<Rightarrow>
          if h = [] then JStr h
          else (case split_on CHR '' '' h of
                  a # t # rest \<Rightarrow> JStr t
                | _ \<Rightarrow> JUndefined))"

definition token_string :: "jsval \<Rightarrow> string" where
  "token_string v = (case v of JStr s \<Rightarrow> s | _ \<Rightarrow> [])"

definition authenticateToken :: "env \<Rightarrow> store \<Rightarrow> string option \<Rightarrow> response + jsval" where
  "authenticateToken e s authHeader =
     (let token = header_token authHeader in
      if \<not> truthy token
      then Inl (respond_error e 401 ''Access token required'' JNull ''AUTH_TOKEN_MISSING'')
      else (case jwt_verify e (token_string token) (JWT_SECRET e) of
              Inl error \<Rightarrow>
                Inl (respond_error e 403 ''Invalid or expired token'' error ''AUTH_TOKEN_INVALID'')
            | Inr decoded \<Rightarrow>
                (case map (columns [''user_id'', ''email'', ''full_name'', ''role'', ''created_at''])
                        (select_eq (users s) ''user_id'' (jprop decoded ''user_id'')) of
                   [] \<Rightarrow> Inl (respond_error e 401 ''Invalid token'' JNull ''AUTH_USER_NOT_FOUND'')
                 | user # rest \<Rightarrow> Inr user)))"

section \<open>Input validation\<close>

text \<open>
  The schemas of the first half of \<^verbatim>\<open>schema.ts\<close>, as far as the modelled handlers
  use them. A field schema maps the input value to the parsed value, or to \<open>None\<close> when
  it raises an issue. An object schema parses its keys in the order of its shape and
  drops every other key; when a field fails, \<^verbatim>\<open>parse\<close> throws, and the handler's
  \<^verbatim>\<open>catch\<close> answers 400 with the issue array (\<^verbatim>\<open>error.errors\<close>), here the \<open>Inl\<close>
  value.
\<close>

type_synonym zschema = "jsval \<Rightarrow> jsval option"

definition z_string :: "nat \<Rightarrow> zschema" where
  "z_string n v = (case v of JStr s \<Rightarrow> if n \<le> length s then Some v else None | _ \<Rightarrow> None)"

definition z_url :: "env \<Rightarrow> zschema" where
  "z_url e v = (case v of JStr s \<Rightarrow> if is_url e s then Some v else None | _ \<Rightarrow> None)"

definition z_uuid :: "env \<Rightarrow> zschema" where
  "z_uuid e v = (case v of JStr s \<Rightarrow> if is_uuid e s then Some v else None | _ \<Rightarrow> None)"

definition z_literal :: "string \<Rightarrow> zschema" where
  "z_literal s v = (if v = JStr s then Some v else None)"

definition z_boolean :: zschema where
  "z_boolean v = (case v of JBool b \<Rightarrow> Some v | _ \<Rightarrow> None)"

definition z_int_nonnegative :: zschema where
  "z_int_nonnegative v = (case v of JNum n \<Rightarrow> if 0 \<le> n then Some v else None | _ \<Rightarrow> None)"

definition z_array_string :: zschema where
  "z_array_string v =
     (case v of
        JArr xs \<Rightarrow> if list_all (\<lambda>x. z_string 0 x \<noteq> None) xs then Some v else None
      | _ \<Rightarrow> None)"

definition z_coerce_date :: "env \<Rightarrow> zschema" where
  "z_coerce_date e v = (case new_Date e v of Some t \<Rightarrow> Some (JDate t) | None \<Rightarrow> None)"

definition z_optional :: "zschema \<Rightarrow> zschema" where
  "z_optional sch v = (if v = JUndefined then Some JUndefined else sch v)"

definition z_nullable :: "zschema \<Rightarrow> zschema" where
  "z_nullable sch v = (if v = JNull then Some JNull else sch v)"

definition z_or :: "zschema \<Rightarrow> zschema \<Rightarrow> zschema" where
  "z_or a b v = (case a v of Some x \<Rightarrow> Some x | None \<Rightarrow> b v)"

fun z_fields :: "(string \<times> zschema) list \<Rightarrow> jsval \<Rightarrow> string list \<times> (string \<times> jsval) list" where
  "z_fields [] input = ([], [])"
| "z_fields ((k, sch) # shape) input =
     (case z_fields shape input of
        (bad, out) \<Rightarrow>
          (case sch (jprop input k) of
             None \<Rightarrow> (k # bad, out)
           | Some v \<Rightarrow> (bad, (k, v) # out)))"

definition z_object :: "(string \<times> zschema) list \<Rightarrow> jsval \<Rightarrow> jsval + (string \<times> jsval) list" where
  "z_object shape input =
     (case z_fields shape input of
        ([], out) \<Rightarrow> Inr out
      | (k # bad, out) \<Rightarrow> Inl (JArr (map (\<lambda>p. JObj [(''path'', JArr [JStr p])]) (k # bad))))"

text \<open>
  \<^verbatim>\<open>updateProjectInputSchema\<close> (lines 66-84): the create schema with every field made
  optional, extended by a required \<open>project_id\<close> and \<open>user_id\<close>.
\<close>

definition updateProjectInputSchema :: "env \<Rightarrow> (string \<times> zschema) list" where
  "updateProjectInputSchema e =
     [(''title'', z_optional (z_string 1)),
      (''slug'', z_optional (z_string 1)),
      (''featured_image'', z_optional (z_url e)),
      (''category'', z_optional (z_string 1)),
      (''excerpt'', z_optional (z_string 10)),
      (''content'', z_optional (z_string 100)),
      (''client'', z_optional (z_optional (z_string 0))),
      (''technologies'', z_optional (z_optional z_array_string)),
      (''project_url'', z_optional (z_or (z_optional (z_url e)) (z_literal []))),
      (''project_date'', z_optional (z_coerce_date e)),
      (''user_id'', z_uuid e),
      (''project_id'', z_uuid e)]"

text \<open>\<^verbatim>\<open>updateProjectGalleryImageInputSchema\<close> (lines 116-120).\<close>

definition updateProjectGalleryImageInputSchema :: "(string \<times> zschema) list" where
  "updateProjectGalleryImageInputSchema =
     [(''image_id'', z_string 1),
      (''caption'', z_nullable (z_optional (z_string 0))),
      (''sort_order'', z_optional z_int_nonnegative)]"

text \<open>\<^verbatim>\<open>updateExperienceInputSchema\<close> (lines 220-229).\<close>

definition updateExperienceInputSchema :: "env \<Rightarrow> (string \<times> zschema) list" where
  "updateExperienceInputSchema e =
     [(''experience_id'', z_string 1),
      (''title'', z_optional (z_string 1)),
      (''company'', z_optional (z_string 1)),
      (''description'', z_optional (z_string 10)),
      (''start_date'', z_optional (z_coerce_date e)),
      (''end_date'', z_nullable (z_optional (z_coerce_date e))),
      (''current'', z_optional z_boolean),
      (''location'', z_nullable (z_optional (z_string 0)))]"

section \<open>Update and delete of owned resources\<close>

text \<open>
  The state of the loop that assembles an \<^verbatim>\<open>UPDATE\<close>: \<^verbatim>\<open>updateFields\<close>,
  \<^verbatim>\<open>values\<close> and \<^verbatim>\<open>paramIndex\<close>. An entry \<open>(key, i)\<close> of \<open>sets\<close> stands for the pushed
  text \<^verbatim>\<open>${key} = $${i}\<close>, which \<open>render_set\<close> writes out.
\<close>

record ustate =
  sets :: "(string \<times> nat) list"
  setvals :: "jsval list"
  setIndex :: nat

definition render_set :: "string \<times> nat \<Rightarrow> string" where
  "render_set kv = fst kv @ '' = $'' @ show_nat (snd kv)"

definition updateFields :: "ustate \<Rightarrow> string list" where
  "updateFields u = map render_set (sets u)"

definition push_set :: "string \<Rightarrow> jsval \<Rightarrow> ustate \<Rightarrow> ustate" where
  "push_set key v u =
     u\<lparr>sets := sets u @ [(key, setIndex u)], setvals := setvals u @ [v], setIndex := setIndex u + 1\<rparr>"

text \<open>
  What the store does with \<^verbatim>\<open>SET k1 = $i1, ...\<close> under the bound values: parameter
  \<open>$i\<close> is the \<open>i\<close>-th bound value, counted from one; an unbound parameter assigns nothing.
\<close>

definition bound_sets :: "(string \<times> nat) list \<Rightarrow> jsval list \<Rightarrow> (string \<times> jsval) list" where
  "bound_sets ss vs =
     concat (map (\<lambda>kv. if 0 < snd kv \<and> snd kv \<le> length vs then [(fst kv, vs ! (snd kv - 1))] else []) ss)"

definition bound_param :: "nat \<Rightarrow> jsval list \<Rightarrow> jsval" where
  "bound_param i vs = (if 0 < i \<and> i \<le> length vs then vs ! (i - 1) else JNull)"

definition first_row :: "jsval list \<Rightarrow> jsval" where
  "first_row rows = (case rows of [] \<Rightarrow> JUndefined | r # rest \<Rightarrow> r)"

text \<open>
  \<^verbatim>\<open>UPDATE t SET ... WHERE idcol = $n RETURNING *\<close>: the table after the statement and
  the rows it returns.
\<close>

definition exec_update :: "jsval list \<Rightarrow> string \<Rightarrow> (string \<times> nat) list \<Rightarrow> nat \<Rightarrow> jsval list \<Rightarrow> jsval list \<times> jsval list" where
  "exec_update tbl idcol ss n vs =
     (let hit = (\<lambda>r. sql_eq (jprop r idcol) (bound_param n vs));
          tbl' = map (\<lambda>r. if hit r then set_cols r (bound_sets ss vs) else r) tbl
      in (tbl', filter hit tbl'))"

text \<open>The loop of \<^verbatim>\<open>PUT /api/projects/:project_id\<close> (lines 1009-1020).\<close>

fun project_update_loop :: "env \<Rightarrow> (string \<times> jsval) list \<Rightarrow> ustate \<Rightarrow> ustate" where
  "project_update_loop e [] u = u"
| "project_update_loop e ((key, v) # entries) u =
     project_update_loop e entries
       (if v \<noteq> JUndefined \<and> key \<noteq> ''project_id'' \<and> key \<noteq> ''user_id''
        then (if key = ''technologies''
              then push_set key (JStr (JSON_stringify e v)) u
              else push_set key v u)
        else u)"

text \<open>
  The loop of the gallery-image and experience updates (lines 1172-1178, 1642-1648):
  every defined field but the identifier.
\<close>

fun update_loop :: "string \<Rightarrow> (string \<times> jsval) list \<Rightarrow> ustate \<Rightarrow> ustate" where
  "update_loop idkey [] u = u"
| "update_loop idkey ((key, v) # entries) u =
     update_loop idkey entries
       (if v \<noteq> JUndefined \<and> key \<noteq> idkey then push_set key v u else u)"

definition update_query :: "string \<Rightarrow> string \<Rightarrow> ustate \<Rightarrow> string" where
  "update_query tbl idcol u =
     ''UPDATE '' @ tbl @ '' SET '' @ join '', '' (updateFields u)
       @ '' WHERE '' @ idcol @ '' = $'' @ show_nat (setIndex u) @ '' RETURNING *''"

text \<open>
  The statement \<^verbatim>\<open>PUT /api/projects/:project_id\<close> assembles (lines 1005-1027): the loop,
  then \<open>updated_at\<close>; its text is \<open>update_query ''projects'' ''project_id''\<close> of the
  result, and \<open>project_id\<close> is bound last.
\<close>

definition project_update_statement :: "env \<Rightarrow> (string \<times> jsval) list \<Rightarrow> ustate" where
  "project_update_statement e validatedInput =
     push_set ''updated_at'' (JStr (now e))
       (project_update_loop e validatedInput \<lparr>sets = [], setvals = [], setIndex = 1\<rparr>)"

text \<open>\<^verbatim>\<open>PUT /api/projects/:project_id\<close> (lines 985-1042), after \<^verbatim>\<open>authenticateToken\<close>.\<close>

definition put_project :: "env \<Rightarrow> store \<Rightarrow> jsval \<Rightarrow> string \<Rightarrow> (string \<times> jsval) list \<Rightarrow> response \<times> store" where
  "put_project e s user project_id req_body =
     (case select_eq (projects s) ''project_id'' (JStr project_id) of
        [] \<Rightarrow> (respond_error e 404 ''Project not found'' JNull ''PROJECT_NOT_FOUND'', s)
      | existing # others \<Rightarrow>
          if jprop existing ''user_id'' \<noteq> jprop user ''user_id'' \<and> jprop user ''role'' \<noteq> JStr ''admin''
          then (respond_error e 403 ''You can only update your own projects'' JNull
                  ''INSUFFICIENT_PERMISSIONS'', s)
          else
            (case z_object (updateProjectInputSchema e)
                    (JObj (spread_with (spread_with req_body ''project_id'' (JStr project_id))
                             ''user_id'' (jprop user ''user_id''))) of
               Inl errors \<Rightarrow> (respond_error e 400 ''Validation error'' errors ''VALIDATION_ERROR'', s)
             | Inr validatedInput \<Rightarrow>
                 (let u = project_update_statement e validatedInput;
                      vs = setvals u @ [JStr project_id]
                  in (case exec_update (projects s) ''project_id'' (sets u) (setIndex u) vs of
                        (tbl', rows) \<Rightarrow>
                          (case constraint_error e ''projects'' tbl' of
                             Some error \<Rightarrow>
                               (internal_server_error e error, s)
                           | None \<Rightarrow>
                               (\<lparr>status = 200,
                                 body = JObj [(''message'', JStr ''Project updated successfully''),
                                              (''project'', first_row rows)]\<rparr>,
                                s\<lparr>projects := tbl'\<rparr>))))))"

text \<open>
  \<^verbatim>\<open>DELETE /api/projects/:project_id\<close> (lines 1048-1071). The gallery table
  references the project \<^verbatim>\<open>ON DELETE CASCADE\<close>.
\<close>

definition delete_project :: "env \<Rightarrow> store \<Rightarrow> jsval \<Rightarrow> string \<Rightarrow> response \<times> store" where
  "delete_project e s user project_id =
     (case select_eq (projects s) ''project_id'' (JStr project_id) of
        [] \<Rightarrow> (respond_error e 404 ''Project not found'' JNull ''PROJECT_NOT_FOUND'', s)
      | existing # others \<Rightarrow>
          if jprop existing ''user_id'' \<noteq> jprop user ''user_id'' \<and> jprop user ''role'' \<noteq> JStr ''admin''
          then (respond_error e 403 ''You can only delete your own projects'' JNull
                  ''INSUFFICIENT_PERMISSIONS'', s)
          else (\<lparr>status = 200, body = JObj [(''message'', JStr ''Project deleted successfully'')]\<rparr>,
                s\<lparr>projects := delete_eq (projects s) ''project_id'' (JStr project_id),
                  project_gallery_images :=
                    delete_eq (project_gallery_images s) ''project_id'' (JStr project_id)\<rparr>))"

text \<open>
  The lookup of the gallery handlers (lines 1148-1153): the image joined with its
  project, whose \<open>user_id\<close> is the owner.
\<close>

definition select_image_with_owner :: "store \<Rightarrow> string \<Rightarrow> jsval list" where
  "select_image_with_owner s image_id =
     concat (map (\<lambda>pgi. map (\<lambda>p. set_col pgi (''user_id'', jprop p ''user_id''))
                           (select_eq (projects s) ''project_id'' (jprop pgi ''project_id'')))
                 (select_eq (project_gallery_images s) ''image_id'' (JStr image_id)))"

text \<open>\<^verbatim>\<open>PUT /api/gallery-images/:image_id\<close> (lines 1143-1200).\<close>

definition put_gallery_image :: "env \<Rightarrow> store \<Rightarrow> jsval \<Rightarrow> string \<Rightarrow> (string \<times> jsval) list \<Rightarrow> response \<times> store" where
  "put_gallery_image e s user image_id req_body =
     (case select_image_with_owner s image_id of
        [] \<Rightarrow> (respond_error e 404 ''Gallery image not found'' JNull ''IMAGE_NOT_FOUND'', s)
      | existing # others \<Rightarrow>
          if jprop existing ''user_id'' \<noteq> jprop user ''user_id'' \<and> jprop user ''role'' \<noteq> JStr ''admin''
          then (respond_error e 403 ''You can only modify your own projects'' JNull
                  ''INSUFFICIENT_PERMISSIONS'', s)
          else
            (case z_object updateProjectGalleryImageInputSchema
                    (JObj (spread_with req_body ''image_id'' (JStr image_id))) of
               Inl errors \<Rightarrow> (respond_error e 400 ''Validation error'' errors ''VALIDATION_ERROR'', s)
             | Inr validatedInput \<Rightarrow>
                 (let u = update_loop ''image_id'' validatedInput \<lparr>sets = [], setvals = [], setIndex = 1\<rparr>
                  in if updateFields u = []
                     then (respond_error e 400 ''No fields to update'' JNull ''NO_UPDATE_FIELDS'', s)
                     else (case exec_update (project_gallery_images s) ''image_id'' (sets u) (setIndex u)
                                  (setvals u @ [JStr image_id]) of
                             (tbl', rows) \<Rightarrow>
                               (\<lparr>status = 200,
                                 body = JObj [(''message'', JStr ''Gallery image updated successfully''),
                                              (''gallery_image'', first_row rows)]\<rparr>,
                                s\<lparr>project_gallery_images := tbl'\<rparr>)))))"

text \<open>\<^verbatim>\<open>DELETE /api/gallery-images/:image_id\<close> (lines 1206-1235).\<close>

definition delete_gallery_image :: "env \<Rightarrow> store \<Rightarrow> jsval \<Rightarrow> string \<Rightarrow> response \<times> store" where
  "delete_gallery_image e s user image_id =
     (case select_image_with_owner s image_id of
        [] \<Rightarrow> (respond_error e 404 ''Gallery image not found'' JNull ''IMAGE_NOT_FOUND'', s)
      | existing # others \<Rightarrow>
          if jprop existing ''user_id'' \<noteq> jprop user ''user_id'' \<and> jprop user ''role'' \<noteq> JStr ''admin''
          then (respond_error e 403 ''You can only modify your own projects'' JNull
                  ''INSUFFICIENT_PERMISSIONS'', s)
          else (\<lparr>status = 200, body = JObj [(''message'', JStr ''Gallery image deleted successfully'')]\<rparr>,
                s\<lparr>project_gallery_images :=
                    delete_eq (project_gallery_images s) ''image_id'' (JStr image_id)\<rparr>))"

text \<open>\<^verbatim>\<open>PUT /api/experiences/:experience_id\<close> (lines 1619-1670).\<close>

definition put_experience :: "env \<Rightarrow> store \<Rightarrow> jsval \<Rightarrow> string \<Rightarrow> (string \<times> jsval) list \<Rightarrow> response \<times> store" where
  "put_experience e s user experience_id req_body =
     (case select_eq (experiences s) ''experience_id'' (JStr experience_id) of
        [] \<Rightarrow> (respond_error e 404 ''Experience not found'' JNull ''EXPERIENCE_NOT_FOUND'', s)
      | existing # others \<Rightarrow>
          if jprop existing ''user_id'' \<noteq> jprop user ''user_id'' \<and> jprop user ''role'' \<noteq> JStr ''admin''
          then (respond_error e 403 ''You can only update your own experiences'' JNull
                  ''INSUFFICIENT_PERMISSIONS'', s)
          else
            (case z_object (updateExperienceInputSchema e)
                    (JObj (spread_with req_body ''experience_id'' (JStr experience_id))) of
               Inl errors \<Rightarrow> (respond_error e 400 ''Validation error'' errors ''VALIDATION_ERROR'', s)
             | Inr validatedInput \<Rightarrow>
                 (let u = update_loop ''experience_id'' validatedInput \<lparr>sets = [], setvals = [], setIndex = 1\<rparr>
                  in if updateFields u = []
                     then (respond_error e 400 ''No fields to update'' JNull ''NO_UPDATE_FIELDS'', s)
                     else (case exec_update (experiences s) ''experience_id'' (sets u) (setIndex u)
                                  (setvals u @ [JStr experience_id]) of
                             (tbl', rows) \<Rightarrow>
                               (\<lparr>status = 200,
                                 body = JObj [(''message'', JStr ''Experience updated successfully''),
                                              (''experience'', first_row rows)]\<rparr>,
                                s\<lparr>experiences := tbl'\<rparr>)))))"

text \<open>\<^verbatim>\<open>DELETE /api/experiences/:experience_id\<close> (lines 1676-1699).\<close>

definition delete_experience :: "env \<Rightarrow> store \<Rightarrow> jsval \<Rightarrow> string \<Rightarrow> response \<times> store" where
  "delete_experience e s user experience_id =
     (case select_eq (experiences s) ''experience_id'' (JStr experience_id) of
        [] \<Rightarrow> (respond_error e 404 ''Experience not found'' JNull ''EXPERIENCE_NOT_FOUND'', s)
      | existing # others \<Rightarrow>
          if jprop existing ''user_id'' \<noteq> jprop user ''user_id'' \<and> jprop user ''role'' \<noteq> JStr ''admin''
          then (respond_error e 403 ''You can only delete your own experiences'' JNull
                  ''INSUFFICIENT_PERMISSIONS'', s)
          else (\<lparr>status = 200, body = JObj [(''message'', JStr ''Experience deleted successfully'')]\<rparr>,
                s\<lparr>experiences := delete_eq (experiences s) ''experience_id'' (JStr experience_id)\<rparr>))"


section \<open>The update of a contact message\<close>

text \<open>
  \<^verbatim>\<open>requireRole(roles)\<close> (lines 590-602): the middleware after \<^verbatim>\<open>authenticateToken\<close> on
  the administrator's routes. \<open>None\<close> stands for \<^verbatim>\<open>next()\<close>.
\<close>

definition requireRole :: "env \<Rightarrow> string list \<Rightarrow> jsval \<Rightarrow> response option" where
  "requireRole e roles user =
     (if \<not> truthy user
      then Some (respond_error e 401 ''Authentication required'' JNull ''AUTH_REQUIRED'')
      else if jprop user ''role'' \<notin> set (map JStr roles)
      then Some (respond_error e 403 ''Insufficient permissions'' JNull ''INSUFFICIENT_PERMISSIONS'')
      else None)"

text \<open>\<^verbatim>\<open>updateContactMessageInputSchema\<close> (lines 310-313).\<close>

definition updateContactMessageInputSchema :: "(string \<times> zschema) list" where
  "updateContactMessageInputSchema =
     [(''message_id'', z_string 1),
      (''read'', z_optional z_boolean)]"

text \<open>The driver binds \<^verbatim>\<open>undefined\<close> as null.\<close>

definition pg_param :: "jsval \<Rightarrow> jsval" where
  "pg_param v = (if v = JUndefined then JNull else v)"

text \<open>
  The handler of \<^verbatim>\<open>PUT /api/contact/:message_id\<close> (lines 1362-1390): validation, then
  \<^verbatim>\<open>UPDATE contact_messages SET read = $1 WHERE message_id = $2 RETURNING *\<close>, then 404
  when no row came back.
\<close>

definition put_contact_message_handler :: "env \<Rightarrow> store \<Rightarrow> string \<Rightarrow> (string \<times> jsval) list \<Rightarrow> response \<times> store" where
  "put_contact_message_handler e s message_id req_body =
     (case z_object updateContactMessageInputSchema
             (JObj (spread_with req_body ''message_id'' (JStr message_id))) of
        Inl errors \<Rightarrow> (respond_error e 400 ''Validation error'' errors ''VALIDATION_ERROR'', s)
      | Inr validatedInput \<Rightarrow>
          (case exec_update (contact_messages s) ''message_id'' [(''read'', 1)] 2
                  [pg_param (jprop (JObj validatedInput) ''read''), JStr message_id] of
             (tbl', rows) \<Rightarrow>
               (case constraint_error e ''contact_messages'' tbl' of
                  Some error \<Rightarrow> (internal_server_error e error, s)
                | None \<Rightarrow>
                    if rows = []
                    then (respond_error e 404 ''Contact message not found'' JNull
                            ''MESSAGE_NOT_FOUND'', s\<lparr>contact_messages := tbl'\<rparr>)
                    else (\<lparr>status = 200,
                           body = JObj [(''message'', JStr ''Contact message updated successfully''),
                                        (''contact_message'', first_row rows)]\<rparr>,
                          s\<lparr>contact_messages := tbl'\<rparr>))))"

text \<open>The route: the role middleware, then the handler.\<close>

definition put_contact_message :: "env \<Rightarrow> store \<Rightarrow> jsval \<Rightarrow> string \<Rightarrow> (string \<times> jsval) list \<Rightarrow> response \<times> store" where
  "put_contact_message e s user message_id req_body =
     (case requireRole e [''admin''] user of
        Some r \<Rightarrow> (r, s)
      | None \<Rightarrow> put_contact_message_handler e s message_id req_body)"

section \<open>The list queries\<close>

subsection \<open>Statements and what the store answers\<close>

text \<open>
  A statement under assembly: the text (\<^verbatim>\<open>query\<close>), the bound values
  (\<^verbatim>\<open>values\<close>) and \<^verbatim>\<open>paramIndex\<close>. Beside the text the model keeps what the text
  says: \<open>preds\<close> holds one predicate for each \<^verbatim>\<open>AND\<close> clause appended, the \<open>i\<close>-th
  bound to parameter \<open>$i\<close>; \<open>orderBy\<close> holds the column and direction of the
  \<^verbatim>\<open>ORDER BY\<close> clause; \<open>limitParam\<close> and \<open>offsetParam\<close> are the parameters of
  \<^verbatim>\<open>LIMIT\<close> and \<^verbatim>\<open>OFFSET\<close> (zero when the clause is absent).
\<close>

datatype cmp = CEq | CGe | CLe

datatype pred = PILike "string list" | PCmp string cmp

record qstate =
  query :: string
  preds :: "pred list"
  orderBy :: "(string \<times> string) list"
  limitParam :: nat
  offsetParam :: nat
  vals :: "jsval list"
  paramIndex :: nat

definition start_query :: "string \<Rightarrow> qstate" where
  "start_query txt =
     \<lparr>query = txt, preds = [], orderBy = [], limitParam = 0, offsetParam = 0, vals = [], paramIndex = 1\<rparr>"

text \<open>
  One filter block: \<^verbatim>\<open>query += clause; values.push(v); paramIndex++\<close>. The clause is
  given as a function of the placeholder \<^verbatim>\<open>$${paramIndex}\<close>.
\<close>

definition add_filter :: "(string \<Rightarrow> string) \<Rightarrow> pred \<Rightarrow> jsval \<Rightarrow> qstate \<Rightarrow> qstate" where
  "add_filter clause p v q =
     q\<lparr>query := query q @ clause (''$'' @ show_nat (paramIndex q)),
       preds := preds q @ [p],
       vals := vals q @ [v],
       paramIndex := paramIndex q + 1\<rparr>"

text \<open>\<^verbatim>\<open>if (v) { ... }\<close> for an optional string, for an optional number, and
  \<^verbatim>\<open>if (v !== undefined) { ... }\<close> (also \<^verbatim>\<open>if (v)\<close> for an optional \<^verbatim>\<open>Date\<close>, which
  is truthy whenever it is defined).\<close>

definition if_string :: "string option \<Rightarrow> (string \<Rightarrow> qstate \<Rightarrow> qstate) \<Rightarrow> qstate \<Rightarrow> qstate" where
  "if_string v f q = (case v of None \<Rightarrow> q | Some s \<Rightarrow> if truthy (JStr s) then f s q else q)"

definition if_number :: "int option \<Rightarrow> (int \<Rightarrow> qstate \<Rightarrow> qstate) \<Rightarrow> qstate \<Rightarrow> qstate" where
  "if_number v f q = (case v of None \<Rightarrow> q | Some n \<Rightarrow> if truthy (JNum n) then f n q else q)"

definition if_defined :: "'a option \<Rightarrow> ('a \<Rightarrow> qstate \<Rightarrow> qstate) \<Rightarrow> qstate \<Rightarrow> qstate" where
  "if_defined v f q = (case v of None \<Rightarrow> q | Some x \<Rightarrow> f x q)"

text \<open>\<^verbatim>\<open>query += ` ORDER BY ${prefix}${sort_by} ${sort_order.toUpperCase()}`\<close>.\<close>

definition add_order :: "string \<Rightarrow> string \<Rightarrow> string \<Rightarrow> qstate \<Rightarrow> qstate" where
  "add_order pfx sort_by sort_order q =
     q\<lparr>query := query q @ '' ORDER BY '' @ pfx @ sort_by @ '' '' @ toUpperCase sort_order,
       orderBy := [(sort_by, toUpperCase sort_order)]\<rparr>"

text \<open>\<^verbatim>\<open>query += ` LIMIT $${paramIndex} OFFSET $${paramIndex + 1}`; values.push(limit, offset)\<close>.\<close>

definition add_limit_offset :: "int \<Rightarrow> int \<Rightarrow> qstate \<Rightarrow> qstate" where
  "add_limit_offset limit offset q =
     q\<lparr>query := query q @ '' LIMIT $'' @ show_nat (paramIndex q)
                          @ '' OFFSET $'' @ show_nat (paramIndex q + 1),
       limitParam := paramIndex q,
       offsetParam := paramIndex q + 1,
       vals := vals q @ [JNum limit, JNum offset]\<rparr>"

text \<open>\<^verbatim>\<open>query += ` LIMIT $${paramIndex}`; values.push(limit)\<close>.\<close>

definition add_limit :: "int \<Rightarrow> qstate \<Rightarrow> qstate" where
  "add_limit limit q =
     q\<lparr>query := query q @ '' LIMIT $'' @ show_nat (paramIndex q),
       limitParam := paramIndex q,
       vals := vals q @ [JNum limit]\<rparr>"

text \<open>
  \<^verbatim>\<open>LIKE\<close> as the store matches it: \<^verbatim>\<open>%\<close> stands for any run of characters,
  \<^verbatim>\<open>_\<close> for any one character, and a backslash takes the next pattern character
  literally. \<^verbatim>\<open>ILIKE\<close> is the same on lower-cased pattern and text (ASCII letters).
\<close>

fun like :: "string \<Rightarrow> string \<Rightarrow> bool" where
  "like [] t = (t = [])"
| "like (p # ps) t =
     (if p = CHR ''%'' then
        (like ps t \<or> (case t of [] \<Rightarrow> False | c # cs \<Rightarrow> like (p # ps) cs))
      else if p = CHR ''_'' then
        (case t of [] \<Rightarrow> False | c # cs \<Rightarrow> like ps cs)
      else if p = CHR 0x5C then
        (case ps of
           [] \<Rightarrow> False
         | q # qs \<Rightarrow> (case t of [] \<Rightarrow> False | c # cs \<Rightarrow> c = q \<and> like qs cs))
      else (case t of [] \<Rightarrow> False | c # cs \<Rightarrow> c = p \<and> like ps cs))"

definition lower_char :: "char \<Rightarrow> char" where
  "lower_char c =
     (case map_of (zip ''ABCDEFGHIJKLMNOPQRSTUVWXYZ'' ''abcdefghijklmnopqrstuvwxyz'') c of
        Some d \<Rightarrow> d
      | None \<Rightarrow> c)"

definition toLower :: "string \<Rightarrow> string" where
  "toLower s = map lower_char s"

definition ilike :: "string \<Rightarrow> string \<Rightarrow> bool" where
  "ilike pat t = like (toLower pat) (toLower t)"

definition sql_ilike :: "jsval \<Rightarrow> jsval \<Rightarrow> bool" where
  "sql_ilike x pat = (case (x, pat) of (JStr t, JStr p) \<Rightarrow> ilike p t | _ \<Rightarrow> False)"

text \<open>Comparison of column values: numbers, time stamps, booleans and text.\<close>

fun str_le :: "string \<Rightarrow> string \<Rightarrow> bool" where
  "str_le [] t = True"
| "str_le (c # cs) [] = False"
| "str_le (c # cs) (d # ds) =
     ((of_char c :: nat) < of_char d \<or> (c = d \<and> str_le cs ds))"

fun sql_le :: "jsval \<Rightarrow> jsval \<Rightarrow> bool" where
  "sql_le (JNum a) (JNum b) = (a \<le> b)"
| "sql_le (JDate a) (JDate b) = (a \<le> b)"
| "sql_le (JBool a) (JBool b) = (a \<le> b)"
| "sql_le (JStr a) (JStr b) = str_le a b"
| "sql_le x y = False"

fun eval_pred :: "pred \<Rightarrow> jsval \<Rightarrow> jsval \<Rightarrow> bool" where
  "eval_pred (PILike cols) v r = list_ex (\<lambda>c. sql_ilike (jprop r c) v) cols"
| "eval_pred (PCmp c CEq) v r = sql_eq (jprop r c) v"
| "eval_pred (PCmp c CGe) v r = sql_le v (jprop r c)"
| "eval_pred (PCmp c CLe) v r = sql_le (jprop r c) v"

text \<open>The \<^verbatim>\<open>WHERE\<close> clause: the conjunction of the predicates, each under its parameter.\<close>

fun eval_preds :: "pred list \<Rightarrow> jsval list \<Rightarrow> jsval \<Rightarrow> bool" where
  "eval_preds [] vs r = True"
| "eval_preds (p # ps) [] r = False"
| "eval_preds (p # ps) (v # vs) r = (eval_pred p v r \<and> eval_preds ps vs r)"

definition matching :: "jsval list \<Rightarrow> qstate \<Rightarrow> jsval list" where
  "matching tbl q = filter (eval_preds (preds q) (vals q)) tbl"

text \<open>\<^verbatim>\<open>ORDER BY col ASC|DESC\<close>, by stable insertion.\<close>

fun insert_row :: "(jsval \<Rightarrow> jsval \<Rightarrow> bool) \<Rightarrow> jsval \<Rightarrow> jsval list \<Rightarrow> jsval list" where
  "insert_row le x [] = [x]"
| "insert_row le x (y # ys) = (if le x y then x # y # ys else y # insert_row le x ys)"

definition sort_rows :: "(jsval \<Rightarrow> jsval \<Rightarrow> bool) \<Rightarrow> jsval list \<Rightarrow> jsval list" where
  "sort_rows le rows = foldr (insert_row le) rows []"

definition ordered :: "(string \<times> string) list \<Rightarrow> jsval list \<Rightarrow> jsval list" where
  "ordered ob rows =
     (case ob of
        [] \<Rightarrow> rows
      | (c, d) # rest \<Rightarrow>
          if d = ''DESC'' then sort_rows (\<lambda>a b. sql_le (jprop b c) (jprop a c)) rows
          else sort_rows (\<lambda>a b. sql_le (jprop a c) (jprop b c)) rows)"

definition int_param :: "nat \<Rightarrow> jsval list \<Rightarrow> nat option" where
  "int_param i vs = (case bound_param i vs of JNum n \<Rightarrow> Some (nat n) | _ \<Rightarrow> None)"

definition paged :: "qstate \<Rightarrow> jsval list \<Rightarrow> jsval list" where
  "paged q rows =
     (let rows1 = (case int_param (offsetParam q) (vals q) of Some k \<Rightarrow> drop k rows | None \<Rightarrow> rows)
      in (case int_param (limitParam q) (vals q) of Some k \<Rightarrow> take k rows1 | None \<Rightarrow> rows1))"

text \<open>The rows a \<^verbatim>\<open>SELECT\<close> returns, and the number a \<^verbatim>\<open>SELECT COUNT(*)\<close> returns.\<close>

definition run_select :: "jsval list \<Rightarrow> qstate \<Rightarrow> jsval list" where
  "run_select tbl q = paged q (ordered (orderBy q) (matching tbl q))"

definition run_count :: "jsval list \<Rightarrow> qstate \<Rightarrow> int" where
  "run_count tbl q = int (length (matching tbl q))"

subsection \<open>Validation of the query string\<close>

text \<open>
  The query string is a list of name/value pairs; a parameter that is not given is
  \<^verbatim>\<open>undefined\<close>. (A parameter given twice reaches Express as an array, which every string
  and enumeration schema refuses; the model takes single values.)
\<close>

type_synonym query_string = "(string \<times> string) list"

text \<open>\<^verbatim>\<open>req.query.k ? parseInt(req.query.k) : undefined\<close>: \<open>None\<close> is \<^verbatim>\<open>undefined\<close>,
  \<open>Some None\<close> is a number that is no integer.\<close>

definition int_arg :: "env \<Rightarrow> string option \<Rightarrow> int option option" where
  "int_arg e v = (case v of None \<Rightarrow> None | Some s \<Rightarrow> if truthy (JStr s) then Some (parseInt e s) else None)"

text \<open>\<^verbatim>\<open>z.enum(allowed).default(d)\<close>.\<close>

definition zq_enum_default :: "string list \<Rightarrow> string \<Rightarrow> string option \<Rightarrow> string option" where
  "zq_enum_default allowed d v =
     (case v of None \<Rightarrow> Some d | Some s \<Rightarrow> if s \<in> set allowed then Some s else None)"


text \<open>\<^verbatim>\<open>z.number().int().positive().default(d)\<close>.\<close>

definition zq_positive_default :: "int \<Rightarrow> int option option \<Rightarrow> int option" where
  "zq_positive_default d v =
     (case v of
        None \<Rightarrow> Some d
      | Some None \<Rightarrow> None
      | Some (Some n) \<Rightarrow> if 0 < n then Some n else None)"

text \<open>\<^verbatim>\<open>z.number().int().positive().max(100).default(d)\<close>.\<close>

definition zq_limit_default :: "int \<Rightarrow> int option option \<Rightarrow> int option" where
  "zq_limit_default d v =
     (case v of
        None \<Rightarrow> Some d
      | Some None \<Rightarrow> None
      | Some (Some n) \<Rightarrow> if 0 < n \<and> n \<le> 100 then Some n else None)"

text \<open>\<^verbatim>\<open>z.number().int().min(0).max(100).optional()\<close>.\<close>

definition zq_proficiency_optional :: "int option option \<Rightarrow> int option option" where
  "zq_proficiency_optional v =
     (case v of
        None \<Rightarrow> Some None
      | Some None \<Rightarrow> None
      | Some (Some n) \<Rightarrow> if 0 \<le> n \<and> n \<le> 100 then Some (Some n) else None)"

text \<open>\<^verbatim>\<open>z.coerce.date().optional()\<close>.\<close>

definition zq_date_optional :: "env \<Rightarrow> string option \<Rightarrow> int option option" where
  "zq_date_optional e v =
     (case v of
        None \<Rightarrow> Some None
      | Some s \<Rightarrow> (case new_Date e (JStr s) of Some t \<Rightarrow> Some (Some t) | None \<Rightarrow> None))"

text \<open>\<^verbatim>\<open>req.query.read === 'true' ? true : req.query.read === 'false' ? false : undefined\<close>.\<close>

definition read_arg :: "string option \<Rightarrow> bool option" where
  "read_arg v = (if v = Some ''true'' then Some True else if v = Some ''false'' then Some False else None)"

definition zod_issues :: "string list \<Rightarrow> jsval" where
  "zod_issues paths = JArr (map (\<lambda>p. JObj [(''path'', JArr [JStr p])]) paths)"

definition issue_if_none :: "string \<Rightarrow> 'a option \<Rightarrow> string list" where
  "issue_if_none path v = (case v of None \<Rightarrow> [path] | Some x \<Rightarrow> [])"

subsection \<open>The four list endpoints\<close>

text \<open>
  What a list handler does: the statements it issues, in order, and its response.
\<close>

record outcome =
  issued :: "qstate list"
  resp :: response

definition ceil_div :: "int \<Rightarrow> int \<Rightarrow> int" where
  "ceil_div a b = (a + b - 1) div b"

definition pagination :: "int \<Rightarrow> int \<Rightarrow> int \<Rightarrow> jsval" where
  "pagination page limit totalCount =
     JObj [(''page'', JNum page), (''limit'', JNum limit), (''total'', JNum totalCount),
           (''totalPages'', JNum (ceil_div totalCount limit))]"

definition validation_failed :: "env \<Rightarrow> jsval \<Rightarrow> outcome" where
  "validation_failed e errors =
     \<lparr>issued = [], resp = respond_error e 400 ''Validation error'' errors ''VALIDATION_ERROR''\<rparr>"

paragraph \<open>\<^verbatim>\<open>GET /api/projects\<close> (lines 798-888)\<close>

record project_query =
  pq_search :: "string option"
  pq_category :: "string option"
  pq_user_id :: "string option"
  pq_page :: int
  pq_limit :: int
  pq_sort_by :: string
  pq_sort_order :: string


definition projects_select_text :: string where
  "projects_select_text =
     ''\<newline>      SELECT p.*, u.full_name as author_name \<newline>      FROM projects p \<newline>      JOIN users u ON p.user_id = u.user_id \<newline>      WHERE 1=1\<newline>    ''"

text \<open>The filter blocks of the item query (lines 813-838).\<close>

definition projects_items_where :: "project_query \<Rightarrow> qstate" where
  "projects_items_where c =
     (let q0 = start_query projects_select_text;
          q1 = if_string (pq_search c)
                 (\<lambda>search. add_filter
                    (\<lambda>p. '' AND (p.title ILIKE '' @ p @ '' OR p.content ILIKE '' @ p @ '')'')
                    (PILike [''title'', ''content'']) (JStr (''%'' @ search @ ''%''))) q0;
          q2 = if_string (pq_category c)
                 (\<lambda>category. add_filter (\<lambda>p. '' AND p.category = '' @ p)
                    (PCmp ''category'' CEq) (JStr category)) q1
      in if_string (pq_user_id c)
           (\<lambda>user_id. add_filter (\<lambda>p. '' AND p.user_id = '' @ p)
              (PCmp ''user_id'' CEq) (JStr user_id)) q2)"

text \<open>The item query: the filters, the sort clause, the page (lines 810-842).\<close>

definition projects_items_query :: "project_query \<Rightarrow> qstate" where
  "projects_items_query c =
     (let offset = (pq_page c - 1) * pq_limit c
      in add_limit_offset (pq_limit c) offset
           (add_order ''p.'' (pq_sort_by c) (pq_sort_order c) (projects_items_where c)))"

text \<open>The count query (lines 847-867).\<close>

definition projects_count_query :: "project_query \<Rightarrow> qstate" where
  "projects_count_query c =
     (let q0 = start_query ''SELECT COUNT(*) FROM projects p WHERE 1=1'';
          q1 = if_string (pq_search c)
                 (\<lambda>search. add_filter
                    (\<lambda>p. '' AND (p.title ILIKE '' @ p @ '' OR p.content ILIKE '' @ p @ '')'')
                    (PILike [''title'', ''content'']) (JStr (''%'' @ search @ ''%''))) q0;
          q2 = if_string (pq_category c)
                 (\<lambda>category. add_filter (\<lambda>p. '' AND p.category = '' @ p)
                    (PCmp ''category'' CEq) (JStr category)) q1
      in if_string (pq_user_id c)
           (\<lambda>user_id. add_filter (\<lambda>p. '' AND p.user_id = '' @ p)
              (PCmp ''user_id'' CEq) (JStr user_id)) q2)"



paragraph \<open>\<^verbatim>\<open>GET /api/contact\<close> (lines 1270-1356), after the two middlewares\<close>

record contact_query =
  cq_search :: "string option"
  cq_read :: "bool option"
  cq_start_date :: "int option"
  cq_end_date :: "int option"
  cq_page :: int
  cq_limit :: int
  cq_sort_by :: string
  cq_sort_order :: string

definition contactMessageQuerySchema_parse :: "env \<Rightarrow> query_string \<Rightarrow> jsval + contact_query" where
  "contactMessageQuerySchema_parse e rq =
     (let start_date = zq_date_optional e (map_of rq ''start_date'');
          end_date = zq_date_optional e (map_of rq ''end_date'');
          page = zq_positive_default 1 (int_arg e (map_of rq ''page''));
          limit = zq_limit_default 10 (int_arg e (map_of rq ''limit''));
          sort_by = zq_enum_default [''created_at'', ''name'', ''read''] ''created_at''
                      (map_of rq ''sort_by'');
          sort_order = zq_enum_default [''asc'', ''desc''] ''desc'' (map_of rq ''sort_order'')
      in (case (start_date, end_date, page, limit, sort_by, sort_order) of
            (Some sd, Some ed, Some p, Some l, Some sb, Some so) \<Rightarrow>
              Inr \<lparr>cq_search = map_of rq ''search'', cq_read = read_arg (map_of rq ''read''),
                   cq_start_date = sd, cq_end_date = ed, cq_page = p, cq_limit = l,
                   cq_sort_by = sb, cq_sort_order = so\<rparr>
          | _ \<Rightarrow>
              Inl (zod_issues (issue_if_none ''start_date'' start_date
                               @ issue_if_none ''end_date'' end_date
                               @ issue_if_none ''page'' page @ issue_if_none ''limit'' limit
                               @ issue_if_none ''sort_by'' sort_by
                               @ issue_if_none ''sort_order'' sort_order))))"

text \<open>The filter blocks of the item query (lines 1286-1312).\<close>

definition contact_items_where :: "contact_query \<Rightarrow> qstate" where
  "contact_items_where c =
     (let q0 = start_query ''SELECT * FROM contact_messages WHERE 1=1'';
          q1 = if_string (cq_search c)
                 (\<lambda>search. add_filter
                    (\<lambda>p. '' AND (name ILIKE '' @ p @ '' OR email ILIKE '' @ p
                           @ '' OR message ILIKE '' @ p @ '')'')
                    (PILike [''name'', ''email'', ''message'']) (JStr (''%'' @ search @ ''%''))) q0;
          q2 = if_defined (cq_read c)
                 (\<lambda>read. add_filter (\<lambda>p. '' AND read = '' @ p) (PCmp ''read'' CEq) (JBool read)) q1;
          q3 = if_defined (cq_start_date c)
                 (\<lambda>start_date. add_filter (\<lambda>p. '' AND created_at >= '' @ p)
                    (PCmp ''created_at'' CGe) (JDate start_date)) q2
      in if_defined (cq_end_date c)
           (\<lambda>end_date. add_filter (\<lambda>p. '' AND created_at <= '' @ p)
              (PCmp ''created_at'' CLe) (JDate end_date)) q3)"

text \<open>The item query (lines 1283-1316).\<close>

definition contact_items_query :: "contact_query \<Rightarrow> qstate" where
  "contact_items_query c =
     (let offset = (cq_page c - 1) * cq_limit c
      in add_limit_offset (cq_limit c) offset
           (add_order [] (cq_sort_by c) (cq_sort_order c) (contact_items_where c)))"

text \<open>The count query (lines 1321-1335): two filter blocks.\<close>

definition contact_count_query :: "contact_query \<Rightarrow> qstate" where
  "contact_count_query c =
     (let q0 = start_query ''SELECT COUNT(*) FROM contact_messages WHERE 1=1'';
          q1 = if_string (cq_search c)
                 (\<lambda>search. add_filter
                    (\<lambda>p. '' AND (name ILIKE '' @ p @ '' OR email ILIKE '' @ p
                           @ '' OR message ILIKE '' @ p @ '')'')
                    (PILike [''name'', ''email'', ''message'']) (JStr (''%'' @ search @ ''%''))) q0
      in if_defined (cq_read c)
           (\<lambda>read. add_filter (\<lambda>p. '' AND read = '' @ p) (PCmp ''read'' CEq) (JBool read)) q1)"

definition get_contact :: "env \<Rightarrow> store \<Rightarrow> query_string \<Rightarrow> outcome" where
  "get_contact e s rq =
     (case contactMessageQuerySchema_parse e rq of
        Inl errors \<Rightarrow> validation_failed e errors
      | Inr c \<Rightarrow>
          (let q = contact_items_query c;
               result = run_select (contact_messages s) q;
               countQuery = contact_count_query c;
               totalCount = run_count (contact_messages s) countQuery
           in \<lparr>issued = [q, countQuery],
               resp = \<lparr>status = 200,
                        body = JObj [(''contact_messages'', JArr result),
                                     (''pagination'', pagination (cq_page c) (cq_limit c) totalCount)]\<rparr>\<rparr>))"

paragraph \<open>\<^verbatim>\<open>GET /api/skills\<close> (lines 1398-1449)\<close>

record skill_query =
  sq_search :: "string option"
  sq_category :: "string option"
  sq_min_proficiency :: "int option"
  sq_sort_by :: string
  sq_sort_order :: string
  sq_limit :: int

definition skillQuerySchema_parse :: "env \<Rightarrow> query_string \<Rightarrow> jsval + skill_query" where
  "skillQuerySchema_parse e rq =
     (let min_proficiency = zq_proficiency_optional (int_arg e (map_of rq ''min_proficiency''));
          sort_by = zq_enum_default [''name'', ''category'', ''proficiency''] ''name''
                      (map_of rq ''sort_by'');
          sort_order = zq_enum_default [''asc'', ''desc''] ''asc'' (map_of rq ''sort_order'');
          limit = zq_limit_default 20 (int_arg e (map_of rq ''limit''))
      in (case (min_proficiency, sort_by, sort_order, limit) of
            (Some mp, Some sb, Some so, Some l) \<Rightarrow>
              Inr \<lparr>sq_search = map_of rq ''search'', sq_category = map_of rq ''category'',
                   sq_min_proficiency = mp, sq_sort_by = sb, sq_sort_order = so, sq_limit = l\<rparr>
          | _ \<Rightarrow>
              Inl (zod_issues (issue_if_none ''min_proficiency'' min_proficiency
                               @ issue_if_none ''sort_by'' sort_by
                               @ issue_if_none ''sort_order'' sort_order
                               @ issue_if_none ''limit'' limit))))"

text \<open>The filter blocks (lines 1411-1431).\<close>

definition skills_where :: "skill_query \<Rightarrow> qstate" where
  "skills_where c =
     (let q0 = start_query ''SELECT * FROM skills WHERE 1=1'';
          q1 = if_string (sq_search c)
                 (\<lambda>search. add_filter (\<lambda>p. '' AND name ILIKE '' @ p)
                    (PILike [''name'']) (JStr (''%'' @ search @ ''%''))) q0;
          q2 = if_string (sq_category c)
                 (\<lambda>category. add_filter (\<lambda>p. '' AND category = '' @ p)
                    (PCmp ''category'' CEq) (JStr category)) q1
      in if_number (sq_min_proficiency c)
           (\<lambda>min_proficiency. add_filter (\<lambda>p. '' AND proficiency >= '' @ p)
              (PCmp ''proficiency'' CGe) (JNum min_proficiency)) q2)"

definition skills_query :: "skill_query \<Rightarrow> qstate" where
  "skills_query c =
     add_limit (sq_limit c) (add_order [] (sq_sort_by c) (sq_sort_order c) (skills_where c))"

definition get_skills :: "env \<Rightarrow> store \<Rightarrow> query_string \<Rightarrow> outcome" where
  "get_skills e s rq =
     (case skillQuerySchema_parse e rq of
        Inl errors \<Rightarrow> validation_failed e errors
      | Inr c \<Rightarrow>
          (let q = skills_query c;
               result = run_select (skills s) q
           in \<lparr>issued = [q],
               resp = \<lparr>status = 200, body = JObj [(''skills'', JArr result)]\<rparr>\<rparr>))"

paragraph \<open>\<^verbatim>\<open>GET /api/users\<close> (lines 1928-2000), after the two middlewares\<close>

record user_query =
  uq_role :: "string option"
  uq_search :: "string option"
  uq_page :: int
  uq_limit :: int
  uq_sort_by :: string
  uq_sort_order :: string


definition users_select_text :: string where
  "users_select_text =
     ''SELECT user_id, email, full_name, profile_pic_url, bio, role, created_at, last_login FROM users WHERE 1=1''"

text \<open>The filter blocks of the item query (lines 1942-1956).\<close>

definition users_items_where :: "user_query \<Rightarrow> qstate" where
  "users_items_where c =
     (let q0 = start_query users_select_text;
          q1 = if_string (uq_role c)
                 (\<lambda>role. add_filter (\<lambda>p. '' AND role = '' @ p) (PCmp ''role'' CEq) (JStr role)) q0
      in if_string (uq_search c)
           (\<lambda>search. add_filter
              (\<lambda>p. '' AND (full_name ILIKE '' @ p @ '' OR email ILIKE '' @ p @ '')'')
              (PILike [''full_name'', ''email'']) (JStr (''%'' @ search @ ''%''))) q1)"

definition users_items_query :: "user_query \<Rightarrow> qstate" where
  "users_items_query c =
     (let offset = (uq_page c - 1) * uq_limit c
      in add_limit_offset (uq_limit c) offset
           (add_order [] (uq_sort_by c) (uq_sort_order c) (users_items_where c)))"

text \<open>The count query (lines 1965-1979).\<close>

definition users_count_query :: "user_query \<Rightarrow> qstate" where
  "users_count_query c =
     (let q0 = start_query ''SELECT COUNT(*) FROM users WHERE 1=1'';
          q1 = if_string (uq_role c)
                 (\<lambda>role. add_filter (\<lambda>p. '' AND role = '' @ p) (PCmp ''role'' CEq) (JStr role)) q0
      in if_string (uq_search c)
           (\<lambda>search. add_filter
              (\<lambda>p. '' AND (full_name ILIKE '' @ p @ '' OR email ILIKE '' @ p @ '')'')
              (PILike [''full_name'', ''email'']) (JStr (''%'' @ search @ ''%''))) q1)"


subsection \<open>The list endpoints with a constant statement\<close>









subsection \<open>Notions for the properties of the list queries\<close>


text \<open>Which filter fields the handlers treat as present: the tests of the filter blocks.\<close>

definition present_string :: "string option \<Rightarrow> bool" where
  "present_string v = (case v of None \<Rightarrow> False | Some s \<Rightarrow> truthy (JStr s))"

definition present_number :: "int option \<Rightarrow> bool" where
  "present_number v = (case v of None \<Rightarrow> False | Some n \<Rightarrow> truthy (JNum n))"

definition is_defined :: "'a option \<Rightarrow> bool" where
  "is_defined v = (case v of None \<Rightarrow> False | Some x \<Rightarrow> True)"

text \<open>The values a filter block binds: one when the field is present, none otherwise.\<close>

definition bound_string :: "string option \<Rightarrow> (string \<Rightarrow> jsval) \<Rightarrow> jsval list" where
  "bound_string v g = (case v of None \<Rightarrow> [] | Some s \<Rightarrow> if truthy (JStr s) then [g s] else [])"

definition bound_number :: "int option \<Rightarrow> (int \<Rightarrow> jsval) \<Rightarrow> jsval list" where
  "bound_number v g = (case v of None \<Rightarrow> [] | Some n \<Rightarrow> if truthy (JNum n) then [g n] else [])"

definition bound_defined :: "'a option \<Rightarrow> ('a \<Rightarrow> jsval) \<Rightarrow> jsval list" where
  "bound_defined v g = (case v of None \<Rightarrow> [] | Some x \<Rightarrow> [g x])"

definition search_pattern :: "string \<Rightarrow> jsval" where
  "search_pattern s = JStr (''%'' @ s @ ''%'')"


text \<open>The number of optional filter fields a skills query sets.\<close>

definition skills_set_fields :: "skill_query \<Rightarrow> nat" where
  "skills_set_fields c =
     length (filter id [is_defined (sq_search c), is_defined (sq_category c),
                        is_defined (sq_min_proficiency c)])"

section \<open>Resume upload\<close>




text \<open>At most one resume of each user is the primary one.\<close>

definition primary_unique :: "jsval list \<Rightarrow> bool" where
  "primary_unique tbl =
     distinct (map (\<lambda>r. jprop r ''user_id'')
                   (filter (\<lambda>r. jprop r ''primary_resume'' = JBool True) tbl))"

section \<open>The constraints declared in the schema\<close>

text \<open>
  The keys declared by \<^verbatim>\<open>db.sql\<close> for the two tables the modelled handlers write under
  a constraint: \<^verbatim>\<open>projects\<close> (primary key \<open>project_id\<close>, unique \<open>slug\<close>) and
  \<^verbatim>\<open>resumes\<close> (primary key \<open>resume_id\<close>, unique \<open>user_id\<close>). This is one environment
  among those the theorems range over; the concrete examples below run in it.
\<close>

definition unique_col :: "string \<Rightarrow> jsval list \<Rightarrow> bool" where
  "unique_col c tbl = distinct (map (\<lambda>r. jprop r c) tbl)"

definition unique_violation :: "string \<Rightarrow> jsval" where
  "unique_violation name =
     JObj [(''name'', JStr ''error''),
           (''message'', JStr (''duplicate key value violates unique constraint '' @ name)),
           (''stack'', JStr (''error: duplicate key value violates unique constraint '' @ name
                             @ ''\<newline>    at Parser.parseErrorMessage''))]"

definition not_null_violation :: "string \<Rightarrow> jsval" where
  "not_null_violation col =
     JObj [(''name'', JStr ''error''),
           (''message'', JStr (''null value in column '' @ col @ '' violates not-null constraint'')),
           (''stack'', JStr (''error: null value in column '' @ col
                             @ '' violates not-null constraint\<newline>    at Parser.parseErrorMessage''))]"

definition db_sql_constraint_error :: "string \<Rightarrow> jsval list \<Rightarrow> jsval option" where
  "db_sql_constraint_error t tbl =
     (if t = ''projects'' then
        (if \<not> unique_col ''project_id'' tbl then Some (unique_violation ''projects_pkey'')
         else if \<not> unique_col ''slug'' tbl then Some (unique_violation ''projects_slug_key'')
         else None)
      else if t = ''resumes'' then
        (if \<not> unique_col ''resume_id'' tbl then Some (unique_violation ''resumes_pkey'')
         else if \<not> unique_col ''user_id'' tbl then Some (unique_violation ''resumes_user_id_key'')
         else None)
      else if t = ''contact_messages'' then
        (if \<not> unique_col ''message_id'' tbl then Some (unique_violation ''contact_messages_pkey'')
         else if JNull \<in> set (map (\<lambda>r. jprop r ''read'') tbl) then Some (not_null_violation ''read'')
         else None)
      else None)"

text \<open>
  The environment and the store of the concrete examples. The token library accepts the
  token \<^verbatim>\<open>good\<close> (it names Alice, and claims the role \<^verbatim>\<open>admin\<close>, which the store
  does not give her), accepts the token \<^verbatim>\<open>stale\<close> (it names a user the store does not
  hold), and throws on every other token.
\<close>

definition alice_id :: string where "alice_id = ''11111111-1111-4111-8111-111111111111''"
definition admin_id :: string where "admin_id = ''22222222-2222-4222-8222-222222222222''"
definition bob_id :: string where "bob_id = ''33333333-3333-4333-8333-333333333333''"
definition shop_id :: string where "shop_id = ''aaaaaaaa-aaaa-4aaa-8aaa-aaaaaaaaaaaa''"
definition blog_id :: string where "blog_id = ''bbbbbbbb-bbbb-4bbb-8bbb-bbbbbbbbbbbb''"

definition forged_error :: jsval where
  "forged_error =
     JObj [(''name'', JStr ''JsonWebTokenError''),
           (''message'', JStr ''jwt malformed''),
           (''stack'', JStr ''JsonWebTokenError: jwt malformed\<newline>    at module.exports [as verify] (/app/node_modules/jsonwebtoken/verify.js:70:17)'')]"

definition demo_jwt_verify :: "string \<Rightarrow> string \<Rightarrow> jsval + jsval" where
  "demo_jwt_verify token secret =
     (if token = ''good'' then Inr (JObj [(''user_id'', JStr alice_id), (''role'', JStr ''admin'')])
      else if token = ''bobs'' then Inr (JObj [(''user_id'', JStr bob_id), (''role'', JStr ''user'')])
      else if token = ''stale'' then Inr (JObj [(''user_id'', JStr ''deleted-user''), (''role'', JStr ''admin'')])
      else Inl forged_error)"

definition demo_env :: env where
  "demo_env =
     \<lparr>now = ''2024-03-01T00:00:00.000Z'',
      uuidv4 = ''cccccccc-cccc-4ccc-8ccc-cccccccccccc'',
      JWT_SECRET = ''your-secret-key'',
      jwt_verify = demo_jwt_verify,
      new_Date = (\<lambda>v. case v of
                         JStr s \<Rightarrow> if s = ''2024-01-01'' then Some 1704067200000 else None
                       | JNum n \<Rightarrow> Some n
                       | JNull \<Rightarrow> Some 0
                       | _ \<Rightarrow> None),
      parseInt = (\<lambda>s. if s = ''0'' then Some 0 else if s = ''5'' then Some 5 else None),
      is_url = (\<lambda>s. take 8 s = ''https://''),
      is_uuid = (\<lambda>s. length s = 36),
      JSON_stringify = (\<lambda>v. ''[]''),
      constraint_error = db_sql_constraint_error\<rparr>"

definition alice :: jsval where
  "alice = JObj [(''user_id'', JStr alice_id), (''email'', JStr ''alice@example.com''),
                 (''full_name'', JStr ''Alice Johnson''), (''role'', JStr ''user''),
                 (''created_at'', JStr ''2023-02-20T10:15:00Z'')]"

definition admin :: jsval where
  "admin = JObj [(''user_id'', JStr admin_id), (''email'', JStr ''admin@example.com''),
                 (''full_name'', JStr ''Admin User''), (''role'', JStr ''admin''),
                 (''created_at'', JStr ''2023-01-15T09:00:00Z'')]"

definition bob :: jsval where
  "bob = JObj [(''user_id'', JStr bob_id), (''email'', JStr ''bob@example.com''),
               (''full_name'', JStr ''Bob Smith''), (''role'', JStr ''user''),
               (''created_at'', JStr ''2023-03-01T08:00:00Z'')]"

definition shop :: jsval where
  "shop = JObj [(''project_id'', JStr shop_id), (''title'', JStr ''E-commerce Platform''),
                (''slug'', JStr ''ecommerce-platform''), (''category'', JStr ''Web Development''),
                (''user_id'', JStr alice_id)]"

definition blog :: jsval where
  "blog = JObj [(''project_id'', JStr blog_id), (''title'', JStr ''Blog Engine''),
                (''slug'', JStr ''blog-engine''), (''category'', JStr ''Web Development''),
                (''user_id'', JStr bob_id)]"

definition carol_message :: jsval where
  "carol_message = JObj [(''message_id'', JStr ''m1''), (''name'', JStr ''Carol''),
                         (''email'', JStr ''carol@example.com''),
                         (''message'', JStr ''Hello there, nice site''),
                         (''created_at'', JDate 1672531200000), (''read'', JBool False)]"

definition dave_message :: jsval where
  "dave_message = JObj [(''message_id'', JStr ''m2''), (''name'', JStr ''Dave''),
                        (''email'', JStr ''dave@example.com''),
                        (''message'', JStr ''Please call me back''),
                        (''created_at'', JDate 1706745600000), (''read'', JBool False)]"

definition javascript_skill :: jsval where
  "javascript_skill = JObj [(''skill_id'', JStr ''s1''), (''name'', JStr ''JavaScript''),
                            (''category'', JStr ''Frontend''), (''proficiency'', JNum 90)]"

definition rust_skill :: jsval where
  "rust_skill = JObj [(''skill_id'', JStr ''s2''), (''name'', JStr ''Rust''),
                      (''category'', JStr ''Systems''), (''proficiency'', JNull)]"

definition bob_resume :: jsval where
  "bob_resume = JObj [(''resume_id'', JStr ''r3''), (''user_id'', JStr bob_id),
                      (''file_url'', JStr ''/storage/resumes/bob.pdf''),
                      (''file_name'', JStr ''bob.pdf''), (''file_size'', JNum 102400),
                      (''uploaded_at'', JStr ''2023-10-01T14:30:00Z''),
                      (''primary_resume'', JBool True)]"

definition shop_image :: jsval where
  "shop_image = JObj [(''image_id'', JStr ''g1''), (''project_id'', JStr shop_id),
                      (''caption'', JNull), (''sort_order'', JNum 0)]"

definition alice_job :: jsval where
  "alice_job = JObj [(''experience_id'', JStr ''x1''), (''user_id'', JStr alice_id),
                     (''title'', JStr ''Engineer''), (''company'', JStr ''Acme'')]"

definition demo_store :: store where
  "demo_store =
     \<lparr>users = [set_col alice (''password_hash'', JStr ''password123''),
               set_col admin (''password_hash'', JStr ''admin123''),
               set_col bob (''password_hash'', JStr ''password456'')],
      projects = [shop, blog],
      project_gallery_images = [shop_image],
      experiences = [alice_job],
      skills = [javascript_skill, rust_skill],
      user_skills = [],
      educations = [],
      contact_messages = [carol_message, dave_message],
      social_links = [],
      resumes = [bob_resume]\<rparr>"

text \<open>The same environment over a store that does not declare \<open>resumes.user_id\<close> unique.\<close>

definition lenient_env :: env where
  "lenient_env =
     demo_env\<lparr>constraint_error :=
       (\<lambda>t tbl. if t = ''resumes'' \<and> \<not> unique_col ''resume_id'' tbl
                then Some (unique_violation ''resumes_pkey'') else None)\<rparr>"


text \<open>A request body that tries to move a project to another owner and another id.\<close>

definition demo_takeover :: "(string \<times> jsval) list" where
  "demo_takeover =
     [(''title'', JStr ''Reviewed''), (''user_id'', JStr bob_id), (''project_id'', JStr blog_id)]"






section \<open>Properties\<close>

subsection \<open>Auxiliary facts\<close>

lemma status_respond_error: "status (respond_error e c m err code) = c"
  by (simp add: respond_error_def)

lemma status_internal_server_error [simp]: "status (internal_server_error e err) = 500"
  by (simp add: internal_server_error_def respond_error_def)



text \<open>Assignment of columns.\<close>

lemma jprop_set_col_other:
  assumes "k \<noteq> c"
  shows "jprop (set_col r (c, v)) k = jprop r k"
proof (cases r)
  case (JObj kvs)
  have "map_of (map (\<lambda>kv. if fst kv = c then (c, v) else kv) kvs) k = map_of kvs k"
    using assms by (induction kvs) auto
  moreover have "map_of (kvs @ [(c, v)]) k = map_of kvs k"
    using assms by (simp add: map_add_def split: option.splits)
  ultimately show ?thesis using JObj by simp
qed simp_all


lemma jprop_set_cols_other:
  "k \<notin> fst ` set cvs \<Longrightarrow> jprop (set_cols r cvs) k = jprop r k"
  unfolding set_cols_def
proof (induction cvs arbitrary: r)
  case Nil
  then show ?case by simp
next
  case (Cons cv cvs)
  obtain c v where cv: "cv = (c, v)" by (cases cv)
  with Cons.prems have "k \<noteq> c" and "k \<notin> fst ` set cvs" by auto
  then show ?case using Cons.IH [of "set_col r (c, v)"] cv by (simp add: jprop_set_col_other)
qed

lemma keys_bound_sets: "fst ` set (bound_sets ss vs) \<subseteq> fst ` set ss"
  by (force simp: bound_sets_def split: if_splits)

lemma exec_update_keeps:
  assumes "k \<notin> fst ` set ss"
  shows "map (\<lambda>row. jprop row k) (fst (exec_update tbl idcol ss n vs)) = map (\<lambda>row. jprop row k) tbl"
proof -
  have "k \<notin> fst ` set (bound_sets ss vs)" using assms keys_bound_sets by blast
  then show ?thesis by (simp add: exec_update_def Let_def jprop_set_cols_other)
qed

lemma sets_push_set: "sets (push_set key v u) = sets u @ [(key, setIndex u)]"
  by (simp add: push_set_def)

lemma keys_project_update_loop:
  "map fst (sets (project_update_loop e entries u)) =
     map fst (sets u)
     @ map fst (filter (\<lambda>kv. snd kv \<noteq> JUndefined \<and> fst kv \<noteq> ''project_id'' \<and> fst kv \<noteq> ''user_id'') entries)"
  by (induction entries arbitrary: u) (auto simp: sets_push_set)

lemma keys_project_update_statement:
  "map fst (sets (project_update_statement e validatedInput)) =
     map fst (filter (\<lambda>kv. snd kv \<noteq> JUndefined \<and> fst kv \<noteq> ''project_id'' \<and> fst kv \<noteq> ''user_id'')
                validatedInput)
     @ [''updated_at'']"
  by (simp add: project_update_statement_def sets_push_set keys_project_update_loop)

lemma z_fields_keys: "z_fields shape input = ([], out) \<Longrightarrow> map fst out = map fst shape"
  by (induction shape arbitrary: out) (auto split: prod.splits option.splits)

lemma z_object_keys: "z_object shape input = Inr out \<Longrightarrow> map fst out = map fst shape"
  by (auto simp: z_object_def z_fields_keys split: prod.splits list.splits)










lemma demo_authenticated:
  "authenticateToken demo_env demo_store None =
     Inl (respond_error demo_env 401 ''Access token required'' JNull ''AUTH_TOKEN_MISSING'')"
  "authenticateToken demo_env demo_store (Some ''Bearer forged'') =
     Inl (respond_error demo_env 403 ''Invalid or expired token'' forged_error ''AUTH_TOKEN_INVALID'')"
  "authenticateToken demo_env demo_store (Some ''Bearer good'') = Inr alice"
  "authenticateToken lenient_env demo_store (Some ''Bearer bobs'') = Inr bob"
  by code_simp+





lemma demo_lookup_missing:
  "select_eq (projects demo_store) ''project_id'' (JStr ''no-such-project'') = []"
  "select_image_with_owner demo_store ''no-such-image'' = []"
  "select_eq (experiences demo_store) ''experience_id'' (JStr ''no-such-experience'') = []"
  by code_simp+



lemma demo_put_takeover:
  "status (fst (put_project demo_env demo_store admin shop_id demo_takeover)) = 200"
  by code_simp




subsection \<open>Auxiliary facts on the list queries\<close>



lemma zq_enum_default_None:
  "zq_enum_default allowed d (Some f) = None \<longleftrightarrow> f \<notin> set allowed"
  by (simp add: zq_enum_default_def)













lemma query_add_filter:
  "query (add_filter cl p v q) = query q @ cl (''$'' @ show_nat (paramIndex q))"
  "paramIndex (add_filter cl p v q) = paramIndex q + 1"
  "vals (add_filter cl p v q) = vals q @ [v]"
  "preds (add_filter cl p v q) = preds q @ [p]"
  by (simp_all add: add_filter_def)

lemma if_string_filter:
  "query (if_string v (\<lambda>x. add_filter cl p (g x)) q) =
     (if present_string v then query q @ cl (''$'' @ show_nat (paramIndex q)) else query q)"
  "paramIndex (if_string v (\<lambda>x. add_filter cl p (g x)) q) =
     (if present_string v then paramIndex q + 1 else paramIndex q)"
  "preds (if_string v (\<lambda>x. add_filter cl p (g x)) q) =
     (if present_string v then preds q @ [p] else preds q)"
  by (simp_all add: if_string_def present_string_def query_add_filter split: option.splits)

lemma if_number_filter:
  "query (if_number v (\<lambda>x. add_filter cl p (g x)) q) =
     (if present_number v then query q @ cl (''$'' @ show_nat (paramIndex q)) else query q)"
  "paramIndex (if_number v (\<lambda>x. add_filter cl p (g x)) q) =
     (if present_number v then paramIndex q + 1 else paramIndex q)"
  "preds (if_number v (\<lambda>x. add_filter cl p (g x)) q) =
     (if present_number v then preds q @ [p] else preds q)"
  by (simp_all add: if_number_def present_number_def query_add_filter split: option.splits)

lemma if_defined_filter:
  "query (if_defined v (\<lambda>x. add_filter cl p (g x)) q) =
     (if is_defined v then query q @ cl (''$'' @ show_nat (paramIndex q)) else query q)"
  "paramIndex (if_defined v (\<lambda>x. add_filter cl p (g x)) q) =
     (if is_defined v then paramIndex q + 1 else paramIndex q)"
  "preds (if_defined v (\<lambda>x. add_filter cl p (g x)) q) =
     (if is_defined v then preds q @ [p] else preds q)"
  by (simp_all add: if_defined_def is_defined_def query_add_filter split: option.splits)

lemmas filter_text = if_string_filter if_number_filter if_defined_filter

lemma start_query_simps:
  "query (start_query t) = t" "paramIndex (start_query t) = 1" "preds (start_query t) = []"
  "vals (start_query t) = []"
  by (simp_all add: start_query_def)





lemma vals_filter:
  "vals (if_string v (\<lambda>x. add_filter cl p (g x)) q) = vals q @ bound_string v g"
  "vals (if_number w (\<lambda>x. add_filter cl p (gn x)) q) = vals q @ bound_number w gn"
  "vals (if_defined u (\<lambda>x. add_filter cl p (gd x)) q) = vals q @ bound_defined u gd"
  by (simp_all add: if_string_def if_number_def if_defined_def bound_string_def bound_number_def
      bound_defined_def query_add_filter split: option.splits)

lemma vals_order_limit:
  "vals (add_limit_offset l off (add_order pfx f d w)) = vals w @ [JNum l, JNum off]"
  "vals (add_limit l (add_order pfx f d w)) = vals w @ [JNum l]"
  by (simp_all add: add_limit_offset_def add_limit_def add_order_def)

lemma projects_bound_values:
  "vals (projects_items_query c) =
     bound_string (pq_search c) search_pattern @ bound_string (pq_category c) JStr
     @ bound_string (pq_user_id c) JStr
     @ [JNum (pq_limit c), JNum ((pq_page c - 1) * pq_limit c)]"
  "vals (projects_count_query c) =
     bound_string (pq_search c) search_pattern @ bound_string (pq_category c) JStr
     @ bound_string (pq_user_id c) JStr"
  by (simp_all add: projects_items_query_def projects_items_where_def projects_count_query_def
      Let_def vals_filter vals_order_limit start_query_simps search_pattern_def [abs_def])



lemma users_bound_values:
  "vals (users_items_query c) =
     bound_string (uq_role c) JStr @ bound_string (uq_search c) search_pattern
     @ [JNum (uq_limit c), JNum ((uq_page c - 1) * uq_limit c)]"
  "vals (users_count_query c) =
     bound_string (uq_role c) JStr @ bound_string (uq_search c) search_pattern"
  by (simp_all add: users_items_query_def users_items_where_def users_count_query_def
      Let_def vals_filter vals_order_limit start_query_simps search_pattern_def [abs_def])










text \<open>The count queries of the project list and of the user list repeat every filter of
  their item queries, so their totals count the rows the item queries match.\<close>

lemma eval_preds_append:
  "length ps = length vs \<Longrightarrow> eval_preds ps (vs @ ws) r = eval_preds ps vs r"
  by (induction ps vs r rule: eval_preds.induct) simp_all

lemma preds_order_limit:
  "preds (add_limit_offset l off (add_order pfx f d w)) = preds w"
  "preds (add_limit l (add_order pfx f d w)) = preds w"
  by (simp_all add: add_limit_offset_def add_limit_def add_order_def)

lemma length_bound:
  "length (bound_string v g) = (if present_string v then 1 else 0)"
  "length (bound_number w gn) = (if present_number w then 1 else 0)"
  "length (bound_defined u gd) = (if is_defined u then 1 else 0)"
  by (simp_all add: bound_string_def bound_number_def bound_defined_def present_string_def
      present_number_def is_defined_def split: option.splits)

lemma projects_count_repeats_filters:
  "preds (projects_count_query c) = preds (projects_items_query c)"
  "vals (projects_items_query c) =
     vals (projects_count_query c) @ [JNum (pq_limit c), JNum ((pq_page c - 1) * pq_limit c)]"
  "length (preds (projects_count_query c)) = length (vals (projects_count_query c))"
  by (simp_all add: projects_bound_values length_bound)
     (simp_all add: projects_items_query_def projects_items_where_def projects_count_query_def
      Let_def preds_order_limit filter_text start_query_simps)

lemma users_count_repeats_filters:
  "preds (users_count_query c) = preds (users_items_query c)"
  "vals (users_items_query c) =
     vals (users_count_query c) @ [JNum (uq_limit c), JNum ((uq_page c - 1) * uq_limit c)]"
  "length (preds (users_count_query c)) = length (vals (users_count_query c))"
  by (simp_all add: users_bound_values length_bound)
     (simp_all add: users_items_query_def users_items_where_def users_count_query_def
      Let_def preds_order_limit filter_text start_query_simps)

lemma sibling_totals:
  "run_count (projects s) (projects_count_query c) =
     int (length (matching (projects s) (projects_items_query c)))"
  "run_count (users s) (users_count_query u) =
     int (length (matching (users s) (users_items_query u)))"
proof -
  have "eval_preds (preds (projects_items_query c)) (vals (projects_items_query c)) =
        eval_preds (preds (projects_count_query c)) (vals (projects_count_query c))"
    unfolding projects_count_repeats_filters(1) [symmetric] projects_count_repeats_filters(2)
    using eval_preds_append [OF projects_count_repeats_filters(3)] by blast
  then show "run_count (projects s) (projects_count_query c) =
     int (length (matching (projects s) (projects_items_query c)))"
    by (simp only: run_count_def matching_def)
  have "eval_preds (preds (users_items_query u)) (vals (users_items_query u)) =
        eval_preds (preds (users_count_query u)) (vals (users_count_query u))"
    unfolding users_count_repeats_filters(1) [symmetric] users_count_repeats_filters(2)
    using eval_preds_append [OF users_count_repeats_filters(3)] by blast
  then show "run_count (users s) (users_count_query u) =
     int (length (matching (users s) (users_items_query u)))"
    by (simp only: run_count_def matching_def)
qed

lemma skills_predicate_count:
  "length (preds (skills_query c)) =
     length (filter id [present_string (sq_search c), present_string (sq_category c),
                        present_number (sq_min_proficiency c)])"
  by (simp add: skills_query_def skills_where_def Let_def preds_order_limit filter_text
      start_query_simps)


subsection \<open>The update of a contact message, and the constant list statements\<close>

lemma exec_update_no_hit:
  assumes "select_eq tbl idcol (bound_param n vs) = []"
  shows "exec_update tbl idcol ss n vs = (tbl, [])"
proof -
  from assms have none: "\<forall>r\<in>set tbl. \<not> sql_eq (jprop r idcol) (bound_param n vs)"
    by (simp add: select_eq_def filter_empty_conv)
  then have "map (\<lambda>r. if sql_eq (jprop r idcol) (bound_param n vs)
                        then set_cols r (bound_sets ss vs) else r) tbl = tbl"
    by (simp add: map_idI)
  with assms show ?thesis
    by (simp add: exec_update_def Let_def select_eq_def)
qed

lemma contact_role_gate:
  assumes "truthy actor" and "jprop actor ''role'' \<noteq> JStr ''admin''"
  shows "put_contact_message e s actor message_id b =
           (respond_error e 403 ''Insufficient permissions'' JNull ''INSUFFICIENT_PERMISSIONS'', s)"
  using assms by (simp add: put_contact_message_def requireRole_def)

lemma contact_admin_missing:
  assumes "truthy actor" and "jprop actor ''role'' = JStr ''admin''"
    and "select_eq (contact_messages s) ''message_id'' (JStr message_id) = []"
    and "constraint_error e ''contact_messages'' (contact_messages s) = None"
    and "z_object updateContactMessageInputSchema
           (JObj (spread_with b ''message_id'' (JStr message_id))) = Inr v"
  shows "put_contact_message e s actor message_id b =
           (respond_error e 404 ''Contact message not found'' JNull ''MESSAGE_NOT_FOUND'', s)"
proof -
  have "exec_update (contact_messages s) ''message_id'' [(''read'', 1)] 2
          [pg_param (jprop (JObj v) ''read''), JStr message_id] = (contact_messages s, [])"
    by (rule exec_update_no_hit) (simp add: bound_param_def assms(3))
  with assms show ?thesis
    by (simp add: put_contact_message_def requireRole_def put_contact_message_handler_def)
qed

lemma demo_contact_update:
  "truthy alice" "jprop alice ''role'' \<noteq> JStr ''admin''"
  "truthy admin" "jprop admin ''role'' = JStr ''admin''"
  "select_eq (contact_messages demo_store) ''message_id'' (JStr ''no-such-message'') = []"
  "constraint_error demo_env ''contact_messages'' (contact_messages demo_store) = None"
  "z_object updateContactMessageInputSchema
     (JObj (spread_with [(''read'', JBool True)] ''message_id'' (JStr ''no-such-message''))) =
     Inr [(''message_id'', JStr ''no-such-message''), (''read'', JBool True)]"
  by code_simp+



text \<open>The invariant of the resumes, read as a count.\<close>

lemma distinct_map_at_most_one:
  "distinct (map f xs) = (\<forall>u. length (filter (\<lambda>x. f x = u) xs) \<le> 1)"
proof (induction xs)
  case Nil
  then show ?case by simp
next
  case (Cons x xs)
  have none: "(f x \<notin> f ` set xs) = (filter (\<lambda>y. f y = f x) xs = [])"
    by (force simp: filter_empty_conv image_iff)
  show ?case
  proof
    assume d: "distinct (map f (x # xs))"
    then have "filter (\<lambda>y. f y = f x) xs = []" and "\<forall>u. length (filter (\<lambda>x. f x = u) xs) \<le> 1"
      using none Cons.IH by auto
    then show "\<forall>u. length (filter (\<lambda>y. f y = u) (x # xs)) \<le> 1" by auto
  next
    assume a: "\<forall>u. length (filter (\<lambda>y. f y = u) (x # xs)) \<le> 1"
    then have "length (filter (\<lambda>y. f y = f x) (x # xs)) \<le> 1" by blast
    then have "filter (\<lambda>y. f y = f x) xs = []" by simp
    moreover have "\<forall>u. length (filter (\<lambda>y. f y = u) xs) \<le> 1"
    proof
      fix u
      from a have "length (filter (\<lambda>y. f y = u) (x # xs)) \<le> 1" by blast
      then show "length (filter (\<lambda>y. f y = u) xs) \<le> 1" by (simp split: if_splits)
    qed
    ultimately show "distinct (map f (x # xs))" using none Cons.IH by auto
  qed
qed

lemma primary_unique_iff:
  "primary_unique tbl =
     (\<forall>u. length (filter (\<lambda>r. jprop r ''user_id'' = u \<and> jprop r ''primary_resume'' = JBool True) tbl) \<le> 1)"
proof -
  have "\<And>u. filter (\<lambda>r. jprop r ''user_id'' = u)
               (filter (\<lambda>r. jprop r ''primary_resume'' = JBool True) tbl) =
             filter (\<lambda>r. jprop r ''user_id'' = u \<and> jprop r ''primary_resume'' = JBool True) tbl"
    by (simp add: conj_commute)
  then show ?thesis
    by (simp add: primary_unique_def distinct_map_at_most_one)
qed

subsection \<open>Token verification\<close>



subsection \<open>Authorization of mutations\<close>



text \<open>
  Claim C4, as stated for every update and delete and for every role, does not hold of
  \<^verbatim>\<open>PUT /api/contact/:message_id\<close>: its role middleware runs before the handler looks
  anything up. Alice, authenticated and not an administrator, names a message the store
  does not hold and is answered 403.
\<close>

theorem contact_role_gate_counterexample:
  "authenticateToken demo_env demo_store (Some ''Bearer good'') = Inr alice
   \<and> select_eq (contact_messages demo_store) ''message_id'' (JStr ''no-such-message'') = []
   \<and> put_contact_message demo_env demo_store alice ''no-such-message'' [(''read'', JBool True)] =
       (respond_error demo_env 403 ''Insufficient permissions'' JNull ''INSUFFICIENT_PERMISSIONS'',
        demo_store)
   \<and> status (fst (put_contact_message demo_env demo_store alice ''no-such-message''
                    [(''read'', JBool True)])) = 403"
  using contact_role_gate [OF demo_contact_update(1) demo_contact_update(2), of demo_env demo_store
      "''no-such-message''" "[(''read'', JBool True)]"]
    demo_authenticated(3) demo_contact_update(5)
  by (simp add: status_respond_error)

text \<open>
  Claim C4, amended. An update or a delete of a project, a gallery image or an experience
  (the resources behind the owner-or-administrator guard) that names an id the store does
  not hold is answered 404 (not found) whoever the actor is, administrator or not, owner
  of anything or not: the lookup is decided before the role and the ownership are looked
  at, and the store is unchanged. The update of a contact message is behind a role gate
  instead: an actor who is not an administrator is answered 403 whatever the id, and an
  administrator who sends a valid body and names a message the store does not hold is
  answered 404.
\<close>

theorem lookup_precedes_owner_guard:
  "(select_eq (projects s) ''project_id'' (JStr project_id) = [] \<longrightarrow>
      put_project e s actor project_id b =
        (respond_error e 404 ''Project not found'' JNull ''PROJECT_NOT_FOUND'', s) \<and>
      delete_project e s actor project_id =
        (respond_error e 404 ''Project not found'' JNull ''PROJECT_NOT_FOUND'', s))
   \<and> (select_image_with_owner s image_id = [] \<longrightarrow>
      put_gallery_image e s actor image_id b =
        (respond_error e 404 ''Gallery image not found'' JNull ''IMAGE_NOT_FOUND'', s) \<and>
      delete_gallery_image e s actor image_id =
        (respond_error e 404 ''Gallery image not found'' JNull ''IMAGE_NOT_FOUND'', s))
   \<and> (select_eq (experiences s) ''experience_id'' (JStr experience_id) = [] \<longrightarrow>
      put_experience e s actor experience_id b =
        (respond_error e 404 ''Experience not found'' JNull ''EXPERIENCE_NOT_FOUND'', s) \<and>
      delete_experience e s actor experience_id =
        (respond_error e 404 ''Experience not found'' JNull ''EXPERIENCE_NOT_FOUND'', s))
   \<and> (truthy actor \<and> jprop actor ''role'' \<noteq> JStr ''admin'' \<longrightarrow>
      put_contact_message e s actor message_id b =
        (respond_error e 403 ''Insufficient permissions'' JNull ''INSUFFICIENT_PERMISSIONS'', s))
   \<and> (truthy actor \<and> jprop actor ''role'' = JStr ''admin''
      \<and> select_eq (contact_messages s) ''message_id'' (JStr message_id) = []
      \<and> constraint_error e ''contact_messages'' (contact_messages s) = None
      \<and> z_object updateContactMessageInputSchema
            (JObj (spread_with b ''message_id'' (JStr message_id))) = Inr v \<longrightarrow>
      put_contact_message e s actor message_id b =
        (respond_error e 404 ''Contact message not found'' JNull ''MESSAGE_NOT_FOUND'', s))"
proof (intro conjI impI)
  assume "truthy actor \<and> jprop actor ''role'' \<noteq> JStr ''admin''"
  then show "put_contact_message e s actor message_id b =
      (respond_error e 403 ''Insufficient permissions'' JNull ''INSUFFICIENT_PERMISSIONS'', s)"
    using contact_role_gate by blast
next
  assume "truthy actor \<and> jprop actor ''role'' = JStr ''admin''
      \<and> select_eq (contact_messages s) ''message_id'' (JStr message_id) = []
      \<and> constraint_error e ''contact_messages'' (contact_messages s) = None
      \<and> z_object updateContactMessageInputSchema
            (JObj (spread_with b ''message_id'' (JStr message_id))) = Inr v"
  then show "put_contact_message e s actor message_id b =
      (respond_error e 404 ''Contact message not found'' JNull ''MESSAGE_NOT_FOUND'', s)"
    using contact_admin_missing by blast
qed (simp_all add: put_project_def delete_project_def put_gallery_image_def
      delete_gallery_image_def put_experience_def delete_experience_def)

theorem lookup_precedes_owner_guard_witness:
  "put_project demo_env demo_store admin ''no-such-project'' [] =
     (respond_error demo_env 404 ''Project not found'' JNull ''PROJECT_NOT_FOUND'', demo_store)
   \<and> delete_project demo_env demo_store alice ''no-such-project'' =
     (respond_error demo_env 404 ''Project not found'' JNull ''PROJECT_NOT_FOUND'', demo_store)
   \<and> delete_gallery_image demo_env demo_store alice ''no-such-image'' =
     (respond_error demo_env 404 ''Gallery image not found'' JNull ''IMAGE_NOT_FOUND'', demo_store)
   \<and> put_experience demo_env demo_store admin ''no-such-experience'' [] =
     (respond_error demo_env 404 ''Experience not found'' JNull ''EXPERIENCE_NOT_FOUND'', demo_store)
   \<and> put_contact_message demo_env demo_store alice ''no-such-message'' [(''read'', JBool True)] =
     (respond_error demo_env 403 ''Insufficient permissions'' JNull ''INSUFFICIENT_PERMISSIONS'',
      demo_store)
   \<and> put_contact_message demo_env demo_store admin ''no-such-message'' [(''read'', JBool True)] =
     (respond_error demo_env 404 ''Contact message not found'' JNull ''MESSAGE_NOT_FOUND'',
      demo_store)"
proof -
  note a = lookup_precedes_owner_guard [where s = demo_store and project_id = "''no-such-project''"
      and image_id = "''no-such-image''" and experience_id = "''no-such-experience''"
      and message_id = "''no-such-message''"
      and e = demo_env and actor = admin and b = "[]"]
  note b = lookup_precedes_owner_guard [where s = demo_store and project_id = "''no-such-project''"
      and image_id = "''no-such-image''" and experience_id = "''no-such-experience''"
      and message_id = "''no-such-message''"
      and e = demo_env and actor = alice and b = "[(''read'', JBool True)]"]
  note c = lookup_precedes_owner_guard [where s = demo_store
      and message_id = "''no-such-message''"
      and e = demo_env and actor = admin and b = "[(''read'', JBool True)]"
      and v = "[(''message_id'', JStr ''no-such-message''), (''read'', JBool True)]"]
  note m = demo_lookup_missing
  note q = demo_contact_update
  have 1: "put_project demo_env demo_store admin ''no-such-project'' [] =
     (respond_error demo_env 404 ''Project not found'' JNull ''PROJECT_NOT_FOUND'', demo_store)"
    by (rule a [THEN conjunct1, THEN mp, OF m(1), THEN conjunct1])
  have 2: "delete_project demo_env demo_store alice ''no-such-project'' =
     (respond_error demo_env 404 ''Project not found'' JNull ''PROJECT_NOT_FOUND'', demo_store)"
    by (rule b [THEN conjunct1, THEN mp, OF m(1), THEN conjunct2])
  have 3: "delete_gallery_image demo_env demo_store alice ''no-such-image'' =
     (respond_error demo_env 404 ''Gallery image not found'' JNull ''IMAGE_NOT_FOUND'', demo_store)"
    by (rule b [THEN conjunct2, THEN conjunct1, THEN mp, OF m(2), THEN conjunct2])
  have 4: "put_experience demo_env demo_store admin ''no-such-experience'' [] =
     (respond_error demo_env 404 ''Experience not found'' JNull ''EXPERIENCE_NOT_FOUND'', demo_store)"
    by (rule a [THEN conjunct2, THEN conjunct2, THEN conjunct1, THEN mp, OF m(3), THEN conjunct1])
  have 5: "put_contact_message demo_env demo_store alice ''no-such-message'' [(''read'', JBool True)] =
     (respond_error demo_env 403 ''Insufficient permissions'' JNull ''INSUFFICIENT_PERMISSIONS'',
      demo_store)"
    by (rule b [THEN conjunct2, THEN conjunct2, THEN conjunct2, THEN conjunct1, THEN mp,
          OF conjI [OF q(1) q(2)]])
  have 6: "put_contact_message demo_env demo_store admin ''no-such-message'' [(''read'', JBool True)] =
     (respond_error demo_env 404 ''Contact message not found'' JNull ''MESSAGE_NOT_FOUND'',
      demo_store)"
    by (rule c [THEN conjunct2, THEN conjunct2, THEN conjunct2, THEN conjunct2, THEN mp,
          OF conjI [OF q(3) conjI [OF q(4) conjI [OF q(5) conjI [OF q(6) q(7)]]]]])
  show ?thesis
    by (intro conjI) (fact 1 2 3 4 5 6)+
qed

subsection \<open>The error envelope\<close>





subsection \<open>The frame of a project update\<close>

text \<open>
  Claim C9. After a successful \<^verbatim>\<open>PUT /api/projects/:project_id\<close> every project row, the
  target among them, has the \<open>project_id\<close> and the \<open>user_id\<close> it had before, whatever the
  request body holds under these keys: the columns the statement assigns are the defined
  fields of the validated input other than \<open>project_id\<close> and \<open>user_id\<close>, in the order of
  the schema, followed by \<open>updated_at\<close>.
\<close>

theorem project_update_keeps_identity:
  assumes "put_project e s actor project_id b = (r, s')" and "status r = 200"
  shows "map (\<lambda>row. jprop row ''project_id'') (projects s') = map (\<lambda>row. jprop row ''project_id'') (projects s)
    \<and> map (\<lambda>row. jprop row ''user_id'') (projects s') = map (\<lambda>row. jprop row ''user_id'') (projects s)
    \<and> (\<exists>validatedInput.
          z_object (updateProjectInputSchema e)
            (JObj (spread_with (spread_with b ''project_id'' (JStr project_id))
                     ''user_id'' (jprop actor ''user_id''))) = Inr validatedInput
          \<and> projects s' =
              fst (exec_update (projects s) ''project_id''
                     (sets (project_update_statement e validatedInput))
                     (setIndex (project_update_statement e validatedInput))
                     (setvals (project_update_statement e validatedInput) @ [JStr project_id]))
          \<and> map fst (sets (project_update_statement e validatedInput)) =
              map fst (filter (\<lambda>kv. snd kv \<noteq> JUndefined \<and> fst kv \<noteq> ''project_id''
                                     \<and> fst kv \<noteq> ''user_id'') validatedInput)
              @ [''updated_at'']
          \<and> set (map fst (sets (project_update_statement e validatedInput)))
              \<subseteq> {''title'', ''slug'', ''featured_image'', ''category'', ''excerpt'', ''content'',
                  ''client'', ''technologies'', ''project_url'', ''project_date'', ''updated_at''})"
proof -
  from assms obtain validatedInput where
    v: "z_object (updateProjectInputSchema e)
            (JObj (spread_with (spread_with b ''project_id'' (JStr project_id))
                     ''user_id'' (jprop actor ''user_id''))) = Inr validatedInput"
    and s': "projects s' =
              fst (exec_update (projects s) ''project_id''
                     (sets (project_update_statement e validatedInput))
                     (setIndex (project_update_statement e validatedInput))
                     (setvals (project_update_statement e validatedInput) @ [JStr project_id]))"
    by (auto simp: put_project_def Let_def status_respond_error
        split: list.splits if_splits sum.splits prod.splits option.splits)
  let ?u = "project_update_statement e validatedInput"
  have keys: "map fst (sets ?u) =
      map fst (filter (\<lambda>kv. snd kv \<noteq> JUndefined \<and> fst kv \<noteq> ''project_id''
                             \<and> fst kv \<noteq> ''user_id'') validatedInput) @ [''updated_at'']"
    by (rule keys_project_update_statement)
  have "''project_id'' \<notin> set (map fst (sets ?u))" and "''user_id'' \<notin> set (map fst (sets ?u))"
    unfolding keys by auto
  then have no_id: "''project_id'' \<notin> fst ` set (sets ?u)"
    and no_owner: "''user_id'' \<notin> fst ` set (sets ?u)"
    by simp_all
  have shape: "map fst validatedInput = map fst (updateProjectInputSchema e)"
    using v by (rule z_object_keys)
  have "set (map fst (sets ?u)) \<subseteq> set (map fst validatedInput) - {''project_id'', ''user_id''} \<union> {''updated_at''}"
    unfolding keys by auto
  then have sub: "set (map fst (sets ?u))
              \<subseteq> {''title'', ''slug'', ''featured_image'', ''category'', ''excerpt'', ''content'',
                  ''client'', ''technologies'', ''project_url'', ''project_date'', ''updated_at''}"
    unfolding shape by (auto simp: updateProjectInputSchema_def)
  have p1: "map (\<lambda>row. jprop row ''project_id'') (projects s') =
      map (\<lambda>row. jprop row ''project_id'') (projects s)"
    unfolding s' by (rule exec_update_keeps [OF no_id])
  have p2: "map (\<lambda>row. jprop row ''user_id'') (projects s') =
      map (\<lambda>row. jprop row ''user_id'') (projects s)"
    unfolding s' by (rule exec_update_keeps [OF no_owner])
  show ?thesis
    by (intro conjI exI [of _ validatedInput]) (fact p1 p2 v s' keys sub)+
qed

theorem project_update_keeps_identity_witness:
  "status (fst (put_project demo_env demo_store admin shop_id demo_takeover)) = 200
   \<and> map (\<lambda>row. jprop row ''project_id'')
         (projects (snd (put_project demo_env demo_store admin shop_id demo_takeover))) =
       map (\<lambda>row. jprop row ''project_id'') (projects demo_store)
   \<and> map (\<lambda>row. jprop row ''user_id'')
         (projects (snd (put_project demo_env demo_store admin shop_id demo_takeover))) =
       map (\<lambda>row. jprop row ''user_id'') (projects demo_store)"
  using project_update_keeps_identity [OF prod.collapse [symmetric] demo_put_takeover]
    demo_put_takeover
  by blast


subsection \<open>The primary resume\<close>




subsection \<open>Pagination totals\<close>

text \<open>
  Claim C1 does not hold of the code: the count query of \<^verbatim>\<open>GET /api/contact\<close> repeats
  the \<open>search\<close> and \<open>read\<close> filters of the item query and leaves out \<open>start_date\<close> and
  \<open>end_date\<close>. With a start date of 1 January 2024 over a store of two messages, one
  of them older, the item query matches one row and the response reports a total of two.
  (For the project list and the user list the total is the number of rows the item
  query matches, see \<open>sibling_totals\<close>.)
\<close>

theorem contact_total_ignores_dates:
  "map query (issued (get_contact demo_env demo_store [(''start_date'', ''2024-01-01'')])) =
     [''SELECT * FROM contact_messages WHERE 1=1 AND created_at >= $1 ORDER BY created_at DESC LIMIT $2 OFFSET $3'',
      ''SELECT COUNT(*) FROM contact_messages WHERE 1=1'']
   \<and> map preds (issued (get_contact demo_env demo_store [(''start_date'', ''2024-01-01'')])) =
     [[PCmp ''created_at'' CGe], []]
   \<and> map vals (issued (get_contact demo_env demo_store [(''start_date'', ''2024-01-01'')])) =
     [[JDate 1704067200000, JNum 10, JNum 0], []]
   \<and> body (resp (get_contact demo_env demo_store [(''start_date'', ''2024-01-01'')])) =
     JObj [(''contact_messages'', JArr [dave_message]),
           (''pagination'', JObj [(''page'', JNum 1), (''limit'', JNum 10),
                                  (''total'', JNum 2), (''totalPages'', JNum 1)])]
   \<and> length (matching (contact_messages demo_store)
               (contact_items_where \<lparr>cq_search = None, cq_read = None,
                  cq_start_date = Some 1704067200000, cq_end_date = None, cq_page = 1,
                  cq_limit = 10, cq_sort_by = ''created_at'', cq_sort_order = ''desc''\<rparr>)) = 1"
  by code_simp


subsection \<open>One predicate for each set field\<close>

text \<open>
  Claim C2 does not hold of the code: \<^verbatim>\<open>GET /api/skills?min_proficiency=0\<close> validates
  to a criteria object with one set field, and the statement issued has no predicate,
  since the filter block tests the number for truthiness. The skill whose proficiency is
  null is returned, which the predicate \<^verbatim>\<open>proficiency >= 0\<close> excludes. With 5 in place
  of 0 the predicate is there. (What holds in general is \<open>skills_predicate_count\<close>: one
  predicate for each field that is truthy.)
\<close>

theorem skills_zero_proficiency_not_filtered:
  "skillQuerySchema_parse demo_env [(''min_proficiency'', ''0'')] =
     Inr \<lparr>sq_search = None, sq_category = None, sq_min_proficiency = Some 0,
          sq_sort_by = ''name'', sq_sort_order = ''asc'', sq_limit = 20\<rparr>
   \<and> skills_set_fields \<lparr>sq_search = None, sq_category = None, sq_min_proficiency = Some 0,
          sq_sort_by = ''name'', sq_sort_order = ''asc'', sq_limit = 20\<rparr> = 1
   \<and> map preds (issued (get_skills demo_env demo_store [(''min_proficiency'', ''0'')])) = [[]]
   \<and> map query (issued (get_skills demo_env demo_store [(''min_proficiency'', ''0'')])) =
       [''SELECT * FROM skills WHERE 1=1 ORDER BY name ASC LIMIT $1'']
   \<and> body (resp (get_skills demo_env demo_store [(''min_proficiency'', ''0'')])) =
       JObj [(''skills'', JArr [javascript_skill, rust_skill])]
   \<and> map preds (issued (get_skills demo_env demo_store [(''min_proficiency'', ''5'')])) =
       [[PCmp ''proficiency'' CGe]]
   \<and> map query (issued (get_skills demo_env demo_store [(''min_proficiency'', ''5'')])) =
       [''SELECT * FROM skills WHERE 1=1 AND proficiency >= $1 ORDER BY name ASC LIMIT $2'']
   \<and> body (resp (get_skills demo_env demo_store [(''min_proficiency'', ''5'')])) =
       JObj [(''skills'', JArr [javascript_skill])]
   \<and> filter (eval_pred (PCmp ''proficiency'' CGe) (JNum 0)) (skills demo_store) = [javascript_skill]"
  by code_simp


subsection \<open>The sort clause\<close>





subsection \<open>Filter values are bound, not written into the text\<close>




end
